theory Spec2Isabelle
  imports Main
begin

section \<open>Connection Lifecycle Supervisor: the module-level state\<close>

text \<open>
  The supervisor of \<^verbatim>\<open>server.js\<close> (and of its second copy, the file that also holds the
  batched endpoints) keeps its state in module-level variables. They are collected in one
  record, field by field under the names of the source. A handle (the \<^verbatim>\<open>Client\<close> object, a
  timer object) is a natural number, \<open>None\<close> is JavaScript's \<^verbatim>\<open>null\<close>; timestamps are
  \<^verbatim>\<open>Date.now()\<close> values in milliseconds, passed in by the caller of each function.

  Three fields are the runtime's, not the program's: \<open>timeouts\<close> is the list of pending
  \<^verbatim>\<open>setTimeout\<close> callbacks (handle, delay, callback), \<open>nextTimer\<close> numbers the timer
  handles, and \<open>clientsCreated\<close> counts the evaluations of \<^verbatim>\<open>new Client(...)\<close>.
\<close>

datatype callback =
    ReconnectAfterDisconnect  \<comment> \<open>the timer of \<^verbatim>\<open>handleDisconnection\<close>\<close>
  | RetryAfterInitFailure     \<comment> \<open>the timer of the \<^verbatim>\<open>catch\<close> branch of \<^verbatim>\<open>initializeWhatsAppClient\<close>\<close>
  | Reinitialize              \<comment> \<open>\<^verbatim>\<open>setTimeout(() => { initializeWhatsAppClient(); }, d)\<close>\<close>

record supervisor =
  qrCodeData :: string
  isLoggedIn :: bool
  loggedInNumber :: string
  loggedInName :: string
  profilePictureUrl :: string
  connectionState :: string
  client :: "nat option"
  isClientDestroying :: bool
  reconnectionTimer :: "nat option"
  monitoringTimer :: "nat option"
  connectionCheckTimer :: "nat option"
  lastConnectionAttempt :: int
  reconnectionAttempts :: nat
  lastKnownState :: "string option"
  lastActiveTimestamp :: int
  qrGenerationTime :: int
  qrAttempts :: nat
  qrAutoRefresh :: bool
  timeouts :: "(nat \<times> nat \<times> callback) list"
  nextTimer :: nat
  clientsCreated :: nat

definition MAX_RECONNECTION_ATTEMPTS :: nat where
  "MAX_RECONNECTION_ATTEMPTS = 3"

definition MIN_RECONNECT_INTERVAL :: int where
  "MIN_RECONNECT_INTERVAL = 30000"

definition CONNECTION_CHECK_INTERVAL :: nat where
  "CONNECTION_CHECK_INTERVAL = 15000"

definition QR_MAX_AGE :: int where
  "QR_MAX_AGE = 300000"

text \<open>The values of the variables when the module has been loaded.\<close>

definition initial :: supervisor where
  "initial = \<lparr> qrCodeData = '''', isLoggedIn = False, loggedInNumber = '''',
     loggedInName = '''', profilePictureUrl = '''', connectionState = ''INITIALIZING'',
     client = None, isClientDestroying = False, reconnectionTimer = None,
     monitoringTimer = None, connectionCheckTimer = None, lastConnectionAttempt = 0,
     reconnectionAttempts = 0, lastKnownState = None, lastActiveTimestamp = 0,
     qrGenerationTime = 0, qrAttempts = 0, qrAutoRefresh = False,
     timeouts = [], nextTimer = 0, clientsCreated = 0 \<rparr>"

subsection \<open>Timers\<close>

text \<open>
  \<^verbatim>\<open>setTimeout(cb, d)\<close> registers the callback and returns a fresh handle;
  \<^verbatim>\<open>clearTimeout(h)\<close> removes it; \<^verbatim>\<open>setInterval\<close> returns a fresh handle (its ticks are
  events of the environment, see \<open>step\<close> below).
\<close>

definition setTimeout :: "callback \<Rightarrow> nat \<Rightarrow> supervisor \<Rightarrow> nat \<times> supervisor" where
  "setTimeout cb d s =
     (nextTimer s,
      s\<lparr>timeouts := timeouts s @ [(nextTimer s, d, cb)], nextTimer := Suc (nextTimer s)\<rparr>)"

definition clearTimeout :: "nat \<Rightarrow> supervisor \<Rightarrow> supervisor" where
  "clearTimeout h s = s\<lparr>timeouts := filter (\<lambda>t. fst t \<noteq> h) (timeouts s)\<rparr>"

definition setInterval :: "supervisor \<Rightarrow> nat \<times> supervisor" where
  "setInterval s = (nextTimer s, s\<lparr>nextTimer := Suc (nextTimer s)\<rparr>)"

subsection \<open>destroyClient\<close>

text \<open>
  \<^verbatim>\<open>destroyClient\<close> suspends once, at \<^verbatim>\<open>await client.destroy()\<close>. \<open>destroyClient_enter\<close> is
  the part before the suspension: \<open>None\<close> when the guard fails and the function returns at
  once, otherwise the state with the in-progress flag set. \<open>destroyClient_settle\<close> is the
  \<^verbatim>\<open>finally\<close> block, which runs whether \<^verbatim>\<open>client.destroy()\<close> resolved or rejected (the
  outcome only selects the line that is logged). \<open>destroyClient\<close> is the call run to
  completion.
\<close>

definition destroyClient_enter :: "supervisor \<Rightarrow> supervisor option" where
  "destroyClient_enter s =
     (if client s \<noteq> None \<and> \<not> isClientDestroying s
      then Some (s\<lparr>isClientDestroying := True\<rparr>) else None)"

definition destroyClient_settle :: "supervisor \<Rightarrow> supervisor" where
  "destroyClient_settle s =
     s\<lparr>client := None, isClientDestroying := False, isLoggedIn := False,
       connectionState := ''DISCONNECTED'', profilePictureUrl := '''', loggedInName := ''''\<rparr>"

definition destroyClient :: "supervisor \<Rightarrow> supervisor" where
  "destroyClient s =
     (case destroyClient_enter s of None \<Rightarrow> s | Some s' \<Rightarrow> destroyClient_settle s')"

subsection \<open>handleDisconnection\<close>

definition handleDisconnection :: "supervisor \<Rightarrow> supervisor" where
  "handleDisconnection s =
     (let s1 = s\<lparr>connectionState := ''DISCONNECTED'', isLoggedIn := False,
                 loggedInNumber := '''', loggedInName := '''', profilePictureUrl := ''''\<rparr>;
          s2 = (if connectionCheckTimer s1 \<noteq> None then s1\<lparr>connectionCheckTimer := None\<rparr>
                else s1)
      in if reconnectionTimer s2 = None
         then (let (h, s3) = setTimeout ReconnectAfterDisconnect 5000 s2
               in s3\<lparr>reconnectionTimer := Some h\<rparr>)
         else s2)"

subsection \<open>initializeWhatsAppClient\<close>

text \<open>
  The synchronous part of \<^verbatim>\<open>initializeWhatsAppClient\<close>, up to
  \<^verbatim>\<open>await client.initialize()\<close>: the two guards, then the creation of the client. The
  events the new client emits, and the rejection of \<^verbatim>\<open>initialize()\<close>, arrive later as
  events of their own.
\<close>

definition initializeWhatsAppClient :: "int \<Rightarrow> supervisor \<Rightarrow> supervisor" where
  "initializeWhatsAppClient now s =
     (if client s \<noteq> None \<or> isClientDestroying s then s
      else if now - lastConnectionAttempt s < MIN_RECONNECT_INTERVAL then s
      else s\<lparr>lastConnectionAttempt := now, connectionState := ''INITIALIZING'',
             isLoggedIn := False, qrCodeData := '''', qrAttempts := 0,
             client := Some (clientsCreated s), clientsCreated := Suc (clientsCreated s)\<rparr>)"

text \<open>The \<^verbatim>\<open>catch\<close> branch, run when \<^verbatim>\<open>client.initialize()\<close> rejects.\<close>

definition initializeFailed :: "supervisor \<Rightarrow> supervisor" where
  "initializeFailed s =
     (let s1 = handleDisconnection s
      in if reconnectionTimer s1 = None
         then (let (h, s2) = setTimeout RetryAfterInitFailure 5000 s1
               in s2\<lparr>reconnectionTimer := Some h\<rparr>)
         else s1)"

subsection \<open>Timer callbacks\<close>

definition bumpReconnectionAttempts :: "supervisor \<Rightarrow> supervisor" where
  "bumpReconnectionAttempts s =
     (let s1 = s\<lparr>reconnectionAttempts := Suc (reconnectionAttempts s)\<rparr>
      in if reconnectionAttempts s1 > MAX_RECONNECTION_ATTEMPTS
         then s1\<lparr>reconnectionAttempts := 0\<rparr> else s1)"

fun runCallback :: "callback \<Rightarrow> int \<Rightarrow> supervisor \<Rightarrow> supervisor" where
  "runCallback ReconnectAfterDisconnect now s =
     initializeWhatsAppClient now (bumpReconnectionAttempts (s\<lparr>reconnectionTimer := None\<rparr>))"
| "runCallback RetryAfterInitFailure now s =
     initializeWhatsAppClient now (s\<lparr>reconnectionTimer := None\<rparr>)"
| "runCallback Reinitialize now s = initializeWhatsAppClient now s"

text \<open>A pending timeout fires: it leaves the list and its callback runs.\<close>

definition fireTimeout :: "nat \<Rightarrow> int \<Rightarrow> supervisor \<Rightarrow> supervisor" where
  "fireTimeout h now s =
     (case find (\<lambda>t. fst t = h) (timeouts s) of
        None \<Rightarrow> s
      | Some (_, _, cb) \<Rightarrow> runCallback cb now (clearTimeout h s))"

subsection \<open>checkActiveConnection\<close>

text \<open>
  \<open>r\<close> is the outcome of \<^verbatim>\<open>await client.getState()\<close>: \<open>Some state\<close> when it resolved,
  \<open>None\<close> when it threw; \<open>now\<close> is the clock when the function resumes.
\<close>

definition checkActiveConnection :: "string option \<Rightarrow> int \<Rightarrow> supervisor \<Rightarrow> supervisor" where
  "checkActiveConnection r now s =
     (if client s = None \<or> \<not> isLoggedIn s then s
      else case r of
        Some state \<Rightarrow>
          (let s1 = s\<lparr>lastKnownState := Some state, lastActiveTimestamp := now\<rparr>
           in if state = ''CONNECTED'' then s1\<lparr>connectionState := ''CONNECTED''\<rparr>
              else if state = ''DISCONNECTED'' then handleDisconnection s1
              else s1\<lparr>connectionState := state\<rparr>)
      | None \<Rightarrow>
          (if now - lastActiveTimestamp s > 30000 then handleDisconnection s else s))"

subsection \<open>The /ping route\<close>

text \<open>The answer of the route: the HTTP status and the fields of the JSON body.\<close>

record response =
  httpStatus :: nat
  success :: bool
  status :: string
  responseMessage :: string

text \<open>
  The handler of \<^verbatim>\<open>GET /ping\<close>; \<open>r\<close> is the outcome of \<^verbatim>\<open>client.getState()\<close>, with the
  message of the error when it threw.
\<close>

definition ping :: "(string + string) \<Rightarrow> int \<Rightarrow> supervisor \<Rightarrow> response \<times> supervisor" where
  "ping r now s =
     (if \<not> isLoggedIn s \<or> client s = None
      then (\<lparr>httpStatus = 200, success = False, status = connectionState s,
              responseMessage = ''WhatsApp not connected''\<rparr>, s)
      else case r of
        Inr state \<Rightarrow>
          (\<lparr>httpStatus = 200, success = True, status = state,
             responseMessage = ''Connection active''\<rparr>,
           s\<lparr>lastKnownState := Some state, lastActiveTimestamp := now\<rparr>)
      | Inl err \<Rightarrow>
          (\<lparr>httpStatus = 200, success = False, status = ''ERROR'',
             responseMessage = ''Failed to check state: '' @ err\<rparr>, s))"

subsection \<open>Events of a client\<close>

text \<open>
  JavaScript's \<^verbatim>\<open>String.prototype.trim\<close>, on the ASCII white space (tab, line feed,
  vertical tab, form feed, carriage return, space).
\<close>

definition isWhiteSpace :: "char \<Rightarrow> bool" where
  "isWhiteSpace c = (c \<in> set [CHR 0x09, CHR 0x0A, CHR 0x0B, CHR 0x0C, CHR 0x0D, CHR '' ''])"

definition trim :: "string \<Rightarrow> string" where
  "trim x = rev (dropWhile isWhiteSpace (rev (dropWhile isWhiteSpace x)))"

text \<open>
  The handler of \<^verbatim>\<open>'qr'\<close>. \<open>qr\<close> is the token of the event (the empty string stands for
  every falsy value), \<open>enc\<close> the outcome of \<^verbatim>\<open>await qrcode.toDataURL(qr)\<close>: the data URL,
  or \<open>None\<close> when it threw.
\<close>

definition onQr :: "string \<Rightarrow> string option \<Rightarrow> int \<Rightarrow> supervisor \<Rightarrow> supervisor" where
  "onQr qr enc now s =
     (let s1 = s\<lparr>qrAttempts := Suc (qrAttempts s)\<rparr>;
          s2 = (if qr \<noteq> '''' \<and> trim qr \<noteq> ''undefined''
                then (case enc of
                        Some url \<Rightarrow> s1\<lparr>qrCodeData := url, qrGenerationTime := now,
                                       connectionState := ''QR_READY''\<rparr>
                      | None \<Rightarrow> s1\<lparr>qrCodeData := '''', connectionState := ''QR_ERROR''\<rparr>)
                else s1)
      in if qrAttempts s2 > 5
         then snd (setTimeout Reinitialize 3000 (destroyClient s2))
         else s2)"

definition onAuthenticated :: "supervisor \<Rightarrow> supervisor" where
  "onAuthenticated s = s\<lparr>connectionState := ''AUTHENTICATED'', qrCodeData := '''', qrAttempts := 0\<rparr>"

definition onAuthFailure :: "supervisor \<Rightarrow> supervisor" where
  "onAuthFailure s = snd (setTimeout Reinitialize 5000 (handleDisconnection s))"

text \<open>
  What \<^verbatim>\<open>fetchProfileInfo\<close> gets from the provider: \<^verbatim>\<open>getContactById\<close> threw, or it
  returned a contact with \<^verbatim>\<open>name\<close> and \<^verbatim>\<open>pushname\<close> (the empty string for a missing one)
  and \<^verbatim>\<open>getProfilePicUrl\<close> threw (\<open>None\<close>) or returned a URL (empty when undefined).
\<close>

datatype profile = ContactFailed | Contact string string "string option"

definition fetchProfileInfo :: "profile \<Rightarrow> supervisor \<Rightarrow> supervisor" where
  "fetchProfileInfo p s =
     (if client s = None \<or> \<not> isLoggedIn s then s
      else case p of
        ContactFailed \<Rightarrow> s\<lparr>loggedInName := ''WhatsApp User'', profilePictureUrl := ''''\<rparr>
      | Contact name pushname pic \<Rightarrow>
          s\<lparr>loggedInName := (if name \<noteq> '''' then name
                              else if pushname \<noteq> '''' then pushname else ''WhatsApp User''),
            profilePictureUrl := (case pic of None \<Rightarrow> '''' | Some url \<Rightarrow> url)\<rparr>)"

text \<open>
  The handler of \<^verbatim>\<open>'ready'\<close>. \<open>user\<close> is \<^verbatim>\<open>client.info.wid.user\<close>, \<open>None\<close> when reading it
  throws (which it also does when \<^verbatim>\<open>client\<close> is \<^verbatim>\<open>null\<close>); the \<^verbatim>\<open>catch\<close> then only logs.
\<close>

definition onReady :: "string option \<Rightarrow> profile \<Rightarrow> int \<Rightarrow> supervisor \<Rightarrow> supervisor" where
  "onReady user p now s =
     (let s1 = s\<lparr>isLoggedIn := True, connectionState := ''CONNECTED'',
                 reconnectionAttempts := 0, lastActiveTimestamp := now, qrAttempts := 0\<rparr>
      in case (if client s1 = None then None else user) of
           None \<Rightarrow> s1
         | Some u \<Rightarrow>
             (let s2 = fetchProfileInfo p (s1\<lparr>loggedInNumber := u\<rparr>);
                  (h, s3) = setInterval s2
              in s3\<lparr>connectionCheckTimer := Some h\<rparr>))"

definition onChangeState :: "string \<Rightarrow> supervisor \<Rightarrow> supervisor" where
  "onChangeState state s =
     (let s1 = s\<lparr>lastKnownState := Some state\<rparr>
      in if state = ''DISCONNECTED'' then handleDisconnection s1 else s1)"

definition onChangeBattery :: "int \<Rightarrow> supervisor \<Rightarrow> supervisor" where
  "onChangeBattery now s = s\<lparr>lastActiveTimestamp := now\<rparr>"

subsection \<open>The periodic monitor\<close>

text \<open>
  \<^verbatim>\<open>startMonitoring\<close> clears an interval that is still running and starts a new one.
  Only the handle of an interval is kept here, so the new handle takes the place of the
  old one.
\<close>

definition startMonitoring :: "supervisor \<Rightarrow> supervisor" where
  "startMonitoring s = (let (h, s1) = setInterval s in s1\<lparr>monitoringTimer := Some h\<rparr>)"

text \<open>
  One run of the callback of \<^verbatim>\<open>startMonitoring\<close>; \<open>r\<close> is the outcome of
  \<^verbatim>\<open>client.getState()\<close> in the branch that calls it.
\<close>

definition monitorTick :: "string option \<Rightarrow> int \<Rightarrow> supervisor \<Rightarrow> supervisor" where
  "monitorTick r now s =
     (if qrCodeData s \<noteq> '''' \<and> \<not> isLoggedIn s \<and> qrAutoRefresh s
         \<and> now - qrGenerationTime s > QR_MAX_AGE
      then snd (setTimeout Reinitialize 2000
             (destroyClient (s\<lparr>qrCodeData := '''', connectionState := ''QR_EXPIRED''\<rparr>)))
      else if isLoggedIn s then
        (if client s \<noteq> None then
           (case r of
              Some state \<Rightarrow> s\<lparr>lastKnownState := Some state, lastActiveTimestamp := now\<rparr>
            | None \<Rightarrow>
                (if now - lastActiveTimestamp s > 30000 then handleDisconnection s else s))
         else s\<lparr>isLoggedIn := False, connectionState := ''DISCONNECTED''\<rparr>)
      else if client s = None \<and> \<not> isClientDestroying s \<and> reconnectionTimer s = None
        then initializeWhatsAppClient now (bumpReconnectionAttempts s)
      else s)"

subsection \<open>The routes that change the state\<close>

definition generateQr :: "supervisor \<Rightarrow> supervisor" where
  "generateQr s =
     (if isLoggedIn s then s
      else snd (setTimeout Reinitialize 2000
             ((destroyClient s)\<lparr>qrCodeData := '''', connectionState := ''GENERATING_QR''\<rparr>)))"

definition toggleQrAutoRefresh :: "supervisor \<Rightarrow> supervisor" where
  "toggleQrAutoRefresh s = s\<lparr>qrAutoRefresh := \<not> qrAutoRefresh s\<rparr>"

text \<open>
  \<^verbatim>\<open>POST /reset\<close>, with the final value of \<^verbatim>\<open>connectionState\<close> as a parameter: the
  handler of \<^verbatim>\<open>POST /logout\<close> that is registered first is the same code after its call of
  \<^verbatim>\<open>client.logout()\<close>, with the same \<^verbatim>\<open>'RESETTING'\<close>; the handler registered second, which
  would store \<^verbatim>\<open>'LOGGED_OUT'\<close>, is never reached, since the first one answers the request.
\<close>

definition teardown :: "string \<Rightarrow> supervisor \<Rightarrow> supervisor" where
  "teardown final s =
     (let s1 = (if monitoringTimer s \<noteq> None then s\<lparr>monitoringTimer := None\<rparr> else s);
          s2 = (if connectionCheckTimer s1 \<noteq> None then s1\<lparr>connectionCheckTimer := None\<rparr>
                else s1);
          s3 = (case reconnectionTimer s2 of
                  None \<Rightarrow> s2
                | Some h \<Rightarrow> (clearTimeout h s2)\<lparr>reconnectionTimer := None\<rparr>);
          s4 = (destroyClient s3)\<lparr>isLoggedIn := False, qrCodeData := '''',
                  connectionState := final, reconnectionAttempts := 0,
                  lastActiveTimestamp := 0, profilePictureUrl := '''', loggedInName := ''''\<rparr>
      in snd (setTimeout Reinitialize 3000 (startMonitoring s4)))"

definition reset :: "supervisor \<Rightarrow> supervisor" where
  "reset s = teardown ''RESETTING'' s"

definition logout :: "supervisor \<Rightarrow> supervisor" where
  "logout s = teardown ''RESETTING'' s"

definition statusRoute :: "string option \<Rightarrow> int \<Rightarrow> supervisor \<Rightarrow> supervisor" where
  "statusRoute r now s =
     (if isLoggedIn s \<and> client s \<noteq> None
      then (case r of
              Some state \<Rightarrow> s\<lparr>lastKnownState := Some state, lastActiveTimestamp := now\<rparr>
            | None \<Rightarrow> s)
      else s)"

subsection \<open>Runs of the supervisor\<close>

text \<open>
  Everything that can happen to the supervisor: the start of the process, an event of the
  client, a timer, a request. Each event carries the clock and the outcomes of the
  provider calls its handler awaits, and the handler runs to its end before the next
  event. An interval ticks only while its handle is set, a timeout fires only while it is
  pending.
\<close>

datatype event =
    Boot int
  | InitializeRejected
  | QrEvent string "string option" int
  | AuthenticatedEvent
  | AuthFailureEvent
  | ReadyEvent "string option" profile int
  | DisconnectedEvent
  | ChangeStateEvent string
  | ChangeBatteryEvent int
  | TimeoutFires nat int
  | ConnectionCheckTick "string option" int
  | MonitorTick "string option" int
  | PingRequest "string + string" int
  | StatusRequest "string option" int
  | GenerateQrRequest
  | ToggleRequest
  | ResetRequest
  | LogoutRequest

fun step :: "event \<Rightarrow> supervisor \<Rightarrow> supervisor" where
  "step (Boot now) s = startMonitoring (initializeWhatsAppClient now s)"
| "step InitializeRejected s = initializeFailed s"
| "step (QrEvent qr enc now) s = onQr qr enc now s"
| "step AuthenticatedEvent s = onAuthenticated s"
| "step AuthFailureEvent s = onAuthFailure s"
| "step (ReadyEvent user p now) s = onReady user p now s"
| "step DisconnectedEvent s = handleDisconnection s"
| "step (ChangeStateEvent state) s = onChangeState state s"
| "step (ChangeBatteryEvent now) s = onChangeBattery now s"
| "step (TimeoutFires h now) s = fireTimeout h now s"
| "step (ConnectionCheckTick r now) s =
     (if connectionCheckTimer s = None then s else checkActiveConnection r now s)"
| "step (MonitorTick r now) s =
     (if monitoringTimer s = None then s else monitorTick r now s)"
| "step (PingRequest r now) s = snd (ping r now s)"
| "step (StatusRequest r now) s = statusRoute r now s"
| "step GenerateQrRequest s = generateQr s"
| "step ToggleRequest s = toggleQrAutoRefresh s"
| "step ResetRequest s = reset s"
| "step LogoutRequest s = logout s"

definition run :: "event list \<Rightarrow> supervisor \<Rightarrow> supervisor" where
  "run evs s = foldl (\<lambda>s e. step e s) s evs"

subsection \<open>Observations used by the properties\<close>

text \<open>
  What a caller can see of a teardown: the client handle, the login flag, the connection
  state and the identity fields.
\<close>

definition stopView :: "supervisor \<Rightarrow> nat option \<times> bool \<times> string \<times> string \<times> string \<times> string" where
  "stopView s = (client s, isLoggedIn s, connectionState s, loggedInNumber s, loggedInName s,
                 profilePictureUrl s)"

text \<open>
  The clock of the events whose handlers call \<^verbatim>\<open>initializeWhatsAppClient\<close>: the start of
  the process, a timeout, the periodic monitor.
\<close>

fun startClock :: "event \<Rightarrow> int option" where
  "startClock (Boot now) = Some now"
| "startClock (TimeoutFires h now) = Some now"
| "startClock (MonitorTick r now) = Some now"
| "startClock _ = None"



text \<open>
  The pending timeouts that were stored in \<^verbatim>\<open>reconnectionTimer\<close>: those of
  \<^verbatim>\<open>handleDisconnection\<close> and of the failed initialization.
\<close>

definition reconnectionPending :: "supervisor \<Rightarrow> (nat \<times> nat \<times> callback) list" where
  "reconnectionPending s = filter (\<lambda>t. snd (snd t) \<noteq> Reinitialize) (timeouts s)"

text \<open>
  The timers are in order when every pending handle has been handed out, no handle is
  pending twice, and the pending reconnection timeouts are exactly the one whose handle
  \<^verbatim>\<open>reconnectionTimer\<close> holds.
\<close>

definition timersOk :: "supervisor \<Rightarrow> bool" where
  "timersOk s =
     (list_all (\<lambda>t. fst t < nextTimer s) (timeouts s)
      \<and> distinct (map fst (timeouts s))
      \<and> map fst (reconnectionPending s)
          = (case reconnectionTimer s of None \<Rightarrow> [] | Some h \<Rightarrow> [h]))"

section \<open>Bulk Dispatch Engine\<close>

text \<open>
  The bulk endpoints answer 202 and then work through the list \<^verbatim>\<open>messages\<close> in the
  background. What they do there is modelled as a function of the list and of the
  provider, which is a state machine of an arbitrary state type \<open>'w\<close>:
  \<^verbatim>\<open>client.sendMessage\<close> resolves or rejects, \<^verbatim>\<open>qrcode.toBuffer\<close> raced against its timer
  yields a buffer or fails, \<^verbatim>\<open>Math.random\<close> yields a number. The job records what it
  did in a trace: each encode, each send with its outcome, each increment of
  \<^verbatim>\<open>successCount\<close> (\<open>Delivered\<close>) or \<^verbatim>\<open>failCount\<close> (\<open>Failed\<close>) with the index of the
  item, each awaited delay, each batch the log announces.
\<close>

datatype payload = Text string | Media string string

record 'w provider =
  sendMessage :: "string \<Rightarrow> payload \<Rightarrow> 'w \<Rightarrow> bool \<times> 'w"
  toBuffer :: "string \<Rightarrow> 'w \<Rightarrow> string option \<times> 'w"
  random :: "'w \<Rightarrow> nat \<times> 'w"

text \<open>
  An entry of \<^verbatim>\<open>messages\<close>. \<open>number\<close> is \<open>None\<close> when the entry has no string there (a
  missing field, a JSON number): \<^verbatim>\<open>number.startsWith\<close> and \<^verbatim>\<open>number.includes\<close> then throw
  a \<^verbatim>\<open>TypeError\<close>. \<open>qrData\<close> is empty when the field is missing or falsy.
\<close>

record item =
  number :: "string option"
  message :: string
  qrData :: string

datatype failure = InvalidAddress | SendError

datatype action =
    Encode nat string bool
  | Send nat string payload bool
  | Delivered nat
  | Failed nat failure
  | Sleep nat
  | BatchStart nat nat nat

record 'w job =
  world :: 'w
  successCount :: nat
  failCount :: nat
  trace :: "action list"

text \<open>
  A job ends when its loop is through, or when an exception leaves the loop and reaches
  the \<^verbatim>\<open>catch\<close> of the route, which logs it.
\<close>

datatype 'a ending = Completed 'a | Aborted 'a

fun endState :: "'a ending \<Rightarrow> 'a" where
  "endState (Completed st) = st"
| "endState (Aborted st) = st"

definition newJob :: "'w \<Rightarrow> 'w job" where
  "newJob w = \<lparr>world = w, successCount = 0, failCount = 0, trace = []\<rparr>"

subsection \<open>Strings\<close>

definition startsWith :: "string \<Rightarrow> string \<Rightarrow> bool" where
  "startsWith p x = (take (length p) x = p)"

fun stringIncludes :: "string \<Rightarrow> string \<Rightarrow> bool" where
  "stringIncludes p [] = (p = [])"
| "stringIncludes p (c # cs) = (startsWith p (c # cs) \<or> stringIncludes p cs)"

definition isDigit :: "char \<Rightarrow> bool" where
  "isDigit c = (c \<in> set ''0123456789'')"

text \<open>The regular expression \<^verbatim>\<open>/^\d+@c\.us$/\<close>: one digit or more, then \<^verbatim>\<open>@c.us\<close>, then the end.\<close>

definition matchesAddress :: "string \<Rightarrow> bool" where
  "matchesAddress x =
     (takeWhile isDigit x \<noteq> [] \<and> dropWhile isDigit x = ''@c.us'')"

subsection \<open>Target normalization\<close>

text \<open>
  \<^verbatim>\<open>/api/send-messages\<close> (both files) and \<^verbatim>\<open>/api/send-bulk\<close>:
  \<^verbatim>\<open>number.startsWith('+') ? number.substring(1) + '@c.us' : number + '@c.us'\<close>.
\<close>

definition formattedNumber :: "string \<Rightarrow> string" where
  "formattedNumber n = (if startsWith ''+'' n then drop 1 n @ ''@c.us'' else n @ ''@c.us'')"

text \<open>
  \<^verbatim>\<open>/api/send-bulk-qr\<close>: the three formats, then the validation; \<open>None\<close> when the
  \<^verbatim>\<open>try\<close> block throws (no string, or no match), which the \<^verbatim>\<open>catch\<close> answers with
  \<^verbatim>\<open>failCount++\<close> and \<^verbatim>\<open>continue\<close>.
\<close>

definition formattedNumberQr :: "string option \<Rightarrow> string option" where
  "formattedNumberQr num =
     (case num of
        None \<Rightarrow> None
      | Some n \<Rightarrow>
          (let formatted = (if stringIncludes ''@c.us'' n then n
                            else if startsWith ''+'' n then drop 1 n @ ''@c.us''
                            else n @ ''@c.us'')
           in if matchesAddress formatted then Some formatted else None))"

subsection \<open>The steps of a job\<close>

definition callSend :: "'w provider \<Rightarrow> nat \<Rightarrow> string \<Rightarrow> payload \<Rightarrow> 'w job \<Rightarrow> bool \<times> 'w job" where
  "callSend P i addr pl st =
     (let (ok, w) = sendMessage P addr pl (world st)
      in (ok, st\<lparr>world := w, trace := trace st @ [Send i addr pl ok]\<rparr>))"

text \<open>
  \<^verbatim>\<open>generateQRCode\<close>: \<^verbatim>\<open>null\<close> for falsy data, otherwise the buffer, or \<^verbatim>\<open>null\<close> when the
  encoder fails or the timer (5 seconds in \<^verbatim>\<open>server.js\<close>, 8 in the other file) wins.
\<close>

definition generateQRCode :: "'w provider \<Rightarrow> nat \<Rightarrow> string \<Rightarrow> 'w job \<Rightarrow> string option \<times> 'w job" where
  "generateQRCode P i d st =
     (if d = '''' then (None, st)
      else (let (r, w) = toBuffer P d (world st)
            in (r, st\<lparr>world := w, trace := trace st @ [Encode i d (r \<noteq> None)]\<rparr>)))"

definition sleep :: "nat \<Rightarrow> 'w job \<Rightarrow> 'w job" where
  "sleep ms st = st\<lparr>trace := trace st @ [Sleep ms]\<rparr>"

definition delivered :: "nat \<Rightarrow> 'w job \<Rightarrow> 'w job" where
  "delivered i st = st\<lparr>successCount := Suc (successCount st), trace := trace st @ [Delivered i]\<rparr>"

definition failed :: "nat \<Rightarrow> failure \<Rightarrow> 'w job \<Rightarrow> 'w job" where
  "failed i why st = st\<lparr>failCount := Suc (failCount st), trace := trace st @ [Failed i why]\<rparr>"

subsection \<open>One item of /api/send-messages\<close>

text \<open>
  The \<^verbatim>\<open>try\<close> block of the loop body. \<open>sendText\<close> is a send of the text that stands
  directly under the outer \<^verbatim>\<open>try\<close>: its failure is the item's failure. A send that fails
  under the inner \<^verbatim>\<open>try\<close> (of the image, or of the text after \<^verbatim>\<open>generateQRCode\<close> returned
  \<^verbatim>\<open>null\<close>) reaches the inner \<^verbatim>\<open>catch\<close>, which sends the text.
\<close>

definition sendText :: "'w provider \<Rightarrow> nat \<Rightarrow> string \<Rightarrow> item \<Rightarrow> 'w job \<Rightarrow> 'w job" where
  "sendText P i addr m st =
     (let (ok, st1) = callSend P i addr (Text (message m)) st
      in if ok then delivered i st1 else failed i SendError st1)"

definition sendItem :: "'w provider \<Rightarrow> nat \<Rightarrow> string \<Rightarrow> item \<Rightarrow> 'w job \<Rightarrow> 'w job" where
  "sendItem P i addr m st =
     (if qrData m \<noteq> '''' then
        (let (buf, st1) = generateQRCode P i (qrData m) st;
             (ok, st2) = (case buf of
                            Some b \<Rightarrow> callSend P i addr (Media b (message m)) st1
                          | None \<Rightarrow> callSend P i addr (Text (message m)) st1)
         in if ok then delivered i st2 else sendText P i addr m st2)
      else sendText P i addr m st)"

subsection \<open>/api/send-messages, one by one (server.js)\<close>

text \<open>The delay after an item that is not the last: 600 ms and a random part under 300.\<close>

definition jitterSleep :: "'w provider \<Rightarrow> 'w job \<Rightarrow> 'w job" where
  "jitterSleep P st =
     (let (r, w) = random P (world st) in sleep (600 + r mod 300) (st\<lparr>world := w\<rparr>))"

definition afterItem :: "'w provider \<Rightarrow> item list \<Rightarrow> nat \<Rightarrow> string \<Rightarrow> 'w job \<Rightarrow> 'w job" where
  "afterItem P messages i n st =
     (let st1 = sendItem P i (formattedNumber n) (messages ! i) st
      in if i < length messages - 1 then jitterSleep P st1 else st1)"

function sendMessagesFrom :: "'w provider \<Rightarrow> item list \<Rightarrow> nat \<Rightarrow> 'w job \<Rightarrow> 'w job ending" where
  "sendMessagesFrom P messages i st =
     (if i < length messages then
        (case number (messages ! i) of
           None \<Rightarrow> Aborted st
         | Some n \<Rightarrow> sendMessagesFrom P messages (Suc i) (afterItem P messages i n st))
      else Completed st)"
  by pat_completeness auto
termination
  by (relation "measure (\<lambda>(P, messages, i, st). length messages - i)") auto

definition sendMessages :: "'w provider \<Rightarrow> item list \<Rightarrow> 'w \<Rightarrow> 'w job ending" where
  "sendMessages P messages w = sendMessagesFrom P messages 0 (newJob w)"

subsection \<open>/api/send-messages, in batches (the second file)\<close>

definition BATCH_SIZE :: nat where
  "BATCH_SIZE = 20"

definition BATCH_DELAY :: nat where
  "BATCH_DELAY = 3000"

definition MESSAGE_DELAY :: nat where
  "MESSAGE_DELAY = 1000"

definition afterBatchItem :: "'w provider \<Rightarrow> item list \<Rightarrow> nat \<Rightarrow> nat \<Rightarrow> string \<Rightarrow> 'w job \<Rightarrow> 'w job" where
  "afterBatchItem P messages batchEnd i n st =
     (let st1 = sendItem P i (formattedNumber n) (messages ! i) st
      in if i < batchEnd - 1 then sleep MESSAGE_DELAY st1 else st1)"

text \<open>
  The inner loop, \<^verbatim>\<open>for (let i = batchStart; i < batchEnd; i++)\<close>. An index past the end of
  the list reads \<^verbatim>\<open>undefined\<close>, whose destructuring throws like a missing number does.
\<close>

function sendBatchFrom :: "'w provider \<Rightarrow> item list \<Rightarrow> nat \<Rightarrow> nat \<Rightarrow> 'w job \<Rightarrow> 'w job ending" where
  "sendBatchFrom P messages batchEnd i st =
     (if i < batchEnd then
        (case (if i < length messages then number (messages ! i) else None) of
           None \<Rightarrow> Aborted st
         | Some n \<Rightarrow>
             sendBatchFrom P messages batchEnd (Suc i) (afterBatchItem P messages batchEnd i n st))
      else Completed st)"
  by pat_completeness auto
termination
  by (relation "measure (\<lambda>(P, messages, batchEnd, i, st). batchEnd - i)") auto

definition announceBatch :: "nat \<Rightarrow> nat \<Rightarrow> 'w job \<Rightarrow> 'w job" where
  "announceBatch batchStart batchEnd st =
     st\<lparr>trace := trace st @ [BatchStart (batchStart div BATCH_SIZE + 1) (batchStart + 1) batchEnd]\<rparr>"

definition afterBatch :: "item list \<Rightarrow> nat \<Rightarrow> 'w job \<Rightarrow> 'w job" where
  "afterBatch messages batchEnd st =
     (if batchEnd < length messages then sleep BATCH_DELAY st else st)"

text \<open>
  The outer loop, \<^verbatim>\<open>for (let batchStart = 0; batchStart < messages.length;
  batchStart += BATCH_SIZE)\<close>.
\<close>

function sendBatchesFrom :: "'w provider \<Rightarrow> item list \<Rightarrow> nat \<Rightarrow> 'w job \<Rightarrow> 'w job ending" where
  "sendBatchesFrom P messages batchStart st =
     (if batchStart < length messages then
        (case sendBatchFrom P messages (min (batchStart + BATCH_SIZE) (length messages)) batchStart
                (announceBatch batchStart (min (batchStart + BATCH_SIZE) (length messages)) st) of
           Aborted st1 \<Rightarrow> Aborted st1
         | Completed st1 \<Rightarrow>
             sendBatchesFrom P messages (batchStart + BATCH_SIZE)
               (afterBatch messages (min (batchStart + BATCH_SIZE) (length messages)) st1))
      else Completed st)"
  by pat_completeness auto
termination
  by (relation "measure (\<lambda>(P, messages, batchStart, st). length messages - batchStart)")
     (auto simp add: BATCH_SIZE_def)

definition sendMessagesBatched :: "'w provider \<Rightarrow> item list \<Rightarrow> 'w \<Rightarrow> 'w job ending" where
  "sendMessagesBatched P messages w = sendBatchesFrom P messages 0 (newJob w)"

subsection \<open>/api/send-bulk-qr\<close>

definition QR_BATCH_SIZE :: nat where
  "QR_BATCH_SIZE = 5"

definition QR_MESSAGE_DELAY :: nat where
  "QR_MESSAGE_DELAY = 3000"

definition SUB_BATCH_DELAY :: nat where
  "SUB_BATCH_DELAY = 12000"

definition MAX_ATTEMPTS :: nat where
  "MAX_ATTEMPTS = 2"

text \<open>
  The loop \<^verbatim>\<open>while (!qrImageBuffer && qrAttempt < 2)\<close>. It ends with a buffer, or by
  rethrowing the error of the second failed encode; \<open>NoBuffer\<close> is the exit through the
  loop condition with no buffer, which the text-only branch after the loop is written for.
\<close>

datatype encoded = Buffer string | NoBuffer | Thrown

function encodeFrom :: "'w provider \<Rightarrow> nat \<Rightarrow> string \<Rightarrow> nat \<Rightarrow> 'w job \<Rightarrow> encoded \<times> 'w job" where
  "encodeFrom P i d qrAttempt st =
     (if qrAttempt < 2 then
        (case fst (generateQRCode P i d st) of
           Some b \<Rightarrow> (Buffer b, snd (generateQRCode P i d st))
         | None \<Rightarrow>
             (if Suc qrAttempt < 2
              then encodeFrom P i d (Suc qrAttempt) (sleep 2000 (snd (generateQRCode P i d st)))
              else (Thrown, snd (generateQRCode P i d st))))
      else (NoBuffer, st))"
  by pat_completeness auto
termination
  by (relation "measure (\<lambda>(P, i, d, qrAttempt, st). 2 - qrAttempt)") auto

text \<open>
  The \<^verbatim>\<open>catch (qrError)\<close> of an attempt, \<open>attempts\<close> being the number of the attempt: on
  the last attempt the text is sent, before that the handler waits. The result says
  whether \<^verbatim>\<open>success\<close> was set.
\<close>

definition qrErrorCaught :: "'w provider \<Rightarrow> nat \<Rightarrow> string \<Rightarrow> item \<Rightarrow> nat \<Rightarrow> 'w job \<Rightarrow> bool \<times> 'w job" where
  "qrErrorCaught P i addr m attempts st =
     (if attempts \<ge> MAX_ATTEMPTS
      then (let (ok, st1) = callSend P i addr (Text (message m)) st
            in if ok then (True, delivered i st1) else (False, failed i SendError st1))
      else (False, sleep 3000 st))"

text \<open>The body of \<^verbatim>\<open>while (!success && attempts < MAX_ATTEMPTS)\<close> after \<^verbatim>\<open>attempts++\<close>.\<close>

definition attemptBody :: "'w provider \<Rightarrow> nat \<Rightarrow> string \<Rightarrow> item \<Rightarrow> nat \<Rightarrow> 'w job \<Rightarrow> bool \<times> 'w job" where
  "attemptBody P i addr m attempts st =
     (if qrData m \<noteq> '''' then
        (case encodeFrom P i (qrData m) 0 st of
           (Buffer b, st1) \<Rightarrow>
             (let (ok, st2) = callSend P i addr (Media b (message m)) st1
              in if ok then (True, delivered i st2) else qrErrorCaught P i addr m attempts st2)
         | (NoBuffer, st1) \<Rightarrow>
             (let (ok, st2) = callSend P i addr (Text (message m)) st1
              in if ok then (True, delivered i st2) else qrErrorCaught P i addr m attempts st2)
         | (Thrown, st1) \<Rightarrow> qrErrorCaught P i addr m attempts st1)
      else
        (let (ok, st1) = callSend P i addr (Text (message m)) st
         in if ok then (True, delivered i st1)
            else if attempts \<ge> MAX_ATTEMPTS then (False, failed i SendError st1)
            else (False, sleep 3000 st1)))"

function attemptsFrom :: "'w provider \<Rightarrow> nat \<Rightarrow> string \<Rightarrow> item \<Rightarrow> nat \<Rightarrow> 'w job \<Rightarrow> 'w job" where
  "attemptsFrom P i addr m attempts st =
     (if attempts < MAX_ATTEMPTS then
        (if fst (attemptBody P i addr m (Suc attempts) st)
         then snd (attemptBody P i addr m (Suc attempts) st)
         else attemptsFrom P i addr m (Suc attempts) (snd (attemptBody P i addr m (Suc attempts) st)))
      else st)"
  by pat_completeness auto
termination
  by (relation "measure (\<lambda>(P, i, addr, m, attempts, st). MAX_ATTEMPTS - attempts)") auto

text \<open>
  One pass of the inner loop. The entries are JSON objects (a \<^verbatim>\<open>null\<close> entry is not
  modelled here). An item whose number does not validate is counted as failed and the
  loop goes on with \<^verbatim>\<open>continue\<close>, past the delay between messages.
\<close>

definition afterQrItem :: "'w provider \<Rightarrow> item list \<Rightarrow> nat \<Rightarrow> nat \<Rightarrow> 'w job \<Rightarrow> 'w job" where
  "afterQrItem P messages subBatchEnd i st =
     (case formattedNumberQr (number (messages ! i)) of
        None \<Rightarrow> failed i InvalidAddress st
      | Some addr \<Rightarrow>
          (let st1 = attemptsFrom P i addr (messages ! i) 0 st
           in if i < subBatchEnd - 1 then sleep QR_MESSAGE_DELAY st1 else st1))"

function sendQrBatchFrom :: "'w provider \<Rightarrow> item list \<Rightarrow> nat \<Rightarrow> nat \<Rightarrow> 'w job \<Rightarrow> 'w job ending" where
  "sendQrBatchFrom P messages subBatchEnd i st =
     (if i < subBatchEnd then
        (if i < length messages
         then sendQrBatchFrom P messages subBatchEnd (Suc i) (afterQrItem P messages subBatchEnd i st)
         else Aborted st)
      else Completed st)"
  by pat_completeness auto
termination
  by (relation "measure (\<lambda>(P, messages, subBatchEnd, i, st). subBatchEnd - i)") auto

definition announceQrBatch :: "nat \<Rightarrow> nat \<Rightarrow> 'w job \<Rightarrow> 'w job" where
  "announceQrBatch subBatchStart subBatchEnd st =
     st\<lparr>trace := trace st
        @ [BatchStart (subBatchStart div QR_BATCH_SIZE + 1) (subBatchStart + 1) subBatchEnd]\<rparr>"

definition afterQrBatch :: "item list \<Rightarrow> nat \<Rightarrow> 'w job \<Rightarrow> 'w job" where
  "afterQrBatch messages subBatchEnd st =
     (if subBatchEnd < length messages then sleep SUB_BATCH_DELAY st else st)"

function sendQrBatchesFrom :: "'w provider \<Rightarrow> item list \<Rightarrow> nat \<Rightarrow> 'w job \<Rightarrow> 'w job ending" where
  "sendQrBatchesFrom P messages subBatchStart st =
     (if subBatchStart < length messages then
        (case sendQrBatchFrom P messages (min (subBatchStart + QR_BATCH_SIZE) (length messages))
                subBatchStart
                (announceQrBatch subBatchStart
                   (min (subBatchStart + QR_BATCH_SIZE) (length messages)) st) of
           Aborted st1 \<Rightarrow> Aborted st1
         | Completed st1 \<Rightarrow>
             sendQrBatchesFrom P messages (subBatchStart + QR_BATCH_SIZE)
               (afterQrBatch messages (min (subBatchStart + QR_BATCH_SIZE) (length messages)) st1))
      else Completed st)"
  by pat_completeness auto
termination
  by (relation "measure (\<lambda>(P, messages, subBatchStart, st). length messages - subBatchStart)")
     (auto simp add: QR_BATCH_SIZE_def)

definition sendBulkQr :: "'w provider \<Rightarrow> item list \<Rightarrow> 'w \<Rightarrow> 'w job ending" where
  "sendBulkQr P messages w = sendQrBatchesFrom P messages 0 (newJob w)"

text \<open>
  The equations of the loops are unfolded by hand in the proofs, one iteration at a time.
\<close>

declare sendMessagesFrom.simps [simp del]
declare sendBatchFrom.simps [simp del]
declare sendBatchesFrom.simps [simp del]
declare encodeFrom.simps [simp del]
declare attemptsFrom.simps [simp del]
declare sendQrBatchFrom.simps [simp del]
declare sendQrBatchesFrom.simps [simp del]

subsection \<open>Reading a trace\<close>

text \<open>The item an action belongs to; the delays and the announcements belong to none.\<close>

fun itemOf :: "action \<Rightarrow> nat option" where
  "itemOf (Encode i d ok) = Some i"
| "itemOf (Send i addr pl ok) = Some i"
| "itemOf (Delivered i) = Some i"
| "itemOf (Failed i why) = Some i"
| "itemOf (Sleep ms) = None"
| "itemOf (BatchStart k a b) = None"

text \<open>The terminal outcomes: the increments of \<^verbatim>\<open>successCount\<close> and of \<^verbatim>\<open>failCount\<close>.\<close>

fun terminal :: "action \<Rightarrow> bool" where
  "terminal (Delivered i) = True"
| "terminal (Failed i why) = True"
| "terminal _ = False"

fun isDelivered :: "action \<Rightarrow> bool" where
  "isDelivered (Delivered i) = True"
| "isDelivered _ = False"

fun isFailed :: "action \<Rightarrow> bool" where
  "isFailed (Failed i why) = True"
| "isFailed _ = False"

fun isEncode :: "action \<Rightarrow> bool" where
  "isEncode (Encode i d ok) = True"
| "isEncode _ = False"

text \<open>The items with a terminal outcome, in the order of their outcomes.\<close>

definition doneItems :: "action list \<Rightarrow> nat list" where
  "doneItems tr = map (\<lambda>a. the (itemOf a)) (filter terminal tr)"

text \<open>The counters agree with the trace.\<close>

definition counted :: "'w job \<Rightarrow> bool" where
  "counted st =
     (successCount st = length (filter isDelivered (trace st))
      \<and> failCount st = length (filter isFailed (trace st)))"




text \<open>
  The outline of a trace of the batched \<^verbatim>\<open>/api/send-messages\<close>: the announcement of each
  batch, the item of each terminal outcome, and each delay of \<open>BATCH_DELAY\<close> (the delay
  between two messages is shorter).
\<close>

datatype mark = Batch nat nat nat | Done nat | Pause

fun outlineOf :: "action \<Rightarrow> mark list" where
  "outlineOf (BatchStart k a b) = [Batch k a b]"
| "outlineOf (Delivered i) = [Done i]"
| "outlineOf (Failed i why) = [Done i]"
| "outlineOf (Sleep ms) = (if ms = BATCH_DELAY then [Pause] else [])"
| "outlineOf _ = []"

definition outline :: "action list \<Rightarrow> mark list" where
  "outline tr = concat (map outlineOf tr)"

text \<open>
  The outline the specification asks for: the items \<open>0, ..., N - 1\<close> cut into batches
  of \<open>BATCH_SIZE\<close>, the batches in order, each announced with its number and its first
  and last message, and each but the last followed by the pause.
\<close>

function chunks :: "nat \<Rightarrow> 'a list \<Rightarrow> 'a list list" where
  "chunks k xs = (if k = 0 \<or> xs = [] then [] else take k xs # chunks k (drop k xs))"
  by pat_completeness auto
termination
  by (relation "measure (\<lambda>(k, xs). length xs)") auto

declare chunks.simps [simp del]




subsection \<open>An example provider\<close>

text \<open>
  A provider for trying the definitions out. Its state counts the calls made so far;
  every third call of \<^verbatim>\<open>sendMessage\<close> is rejected, the encoder always fails, and the
  random number is 7.
\<close>

definition exampleProvider :: "nat provider" where
  "exampleProvider =
     \<lparr>sendMessage = (\<lambda>addr pl w. (w mod 3 \<noteq> 2, Suc w)),
      toBuffer = (\<lambda>d w. (None, w)),
      random = (\<lambda>w. (7, w))\<rparr>"

definition exampleItem :: item where
  "exampleItem = \<lparr>number = Some ''+15551234567'', message = ''hello'', qrData = ''''\<rparr>"

section \<open>Properties of the supervisor\<close>

subsection \<open>What each operation changes\<close>

lemma setTimeout_frame [simp]:
  "qrCodeData (snd (setTimeout cb d s)) = qrCodeData s"
  "isLoggedIn (snd (setTimeout cb d s)) = isLoggedIn s"
  "loggedInNumber (snd (setTimeout cb d s)) = loggedInNumber s"
  "loggedInName (snd (setTimeout cb d s)) = loggedInName s"
  "profilePictureUrl (snd (setTimeout cb d s)) = profilePictureUrl s"
  "connectionState (snd (setTimeout cb d s)) = connectionState s"
  "client (snd (setTimeout cb d s)) = client s"
  "isClientDestroying (snd (setTimeout cb d s)) = isClientDestroying s"
  "reconnectionTimer (snd (setTimeout cb d s)) = reconnectionTimer s"
  "monitoringTimer (snd (setTimeout cb d s)) = monitoringTimer s"
  "connectionCheckTimer (snd (setTimeout cb d s)) = connectionCheckTimer s"
  "lastConnectionAttempt (snd (setTimeout cb d s)) = lastConnectionAttempt s"
  "reconnectionAttempts (snd (setTimeout cb d s)) = reconnectionAttempts s"
  "lastKnownState (snd (setTimeout cb d s)) = lastKnownState s"
  "lastActiveTimestamp (snd (setTimeout cb d s)) = lastActiveTimestamp s"
  "qrGenerationTime (snd (setTimeout cb d s)) = qrGenerationTime s"
  "qrAttempts (snd (setTimeout cb d s)) = qrAttempts s"
  "qrAutoRefresh (snd (setTimeout cb d s)) = qrAutoRefresh s"
  "clientsCreated (snd (setTimeout cb d s)) = clientsCreated s"
  "fst (setTimeout cb d s) = nextTimer s"
  "timeouts (snd (setTimeout cb d s)) = timeouts s @ [(nextTimer s, d, cb)]"
  "nextTimer (snd (setTimeout cb d s)) = Suc (nextTimer s)"
  by (simp_all add: setTimeout_def)

lemma clearTimeout_frame [simp]:
  "qrCodeData (clearTimeout h s) = qrCodeData s"
  "isLoggedIn (clearTimeout h s) = isLoggedIn s"
  "loggedInNumber (clearTimeout h s) = loggedInNumber s"
  "loggedInName (clearTimeout h s) = loggedInName s"
  "profilePictureUrl (clearTimeout h s) = profilePictureUrl s"
  "connectionState (clearTimeout h s) = connectionState s"
  "client (clearTimeout h s) = client s"
  "isClientDestroying (clearTimeout h s) = isClientDestroying s"
  "reconnectionTimer (clearTimeout h s) = reconnectionTimer s"
  "monitoringTimer (clearTimeout h s) = monitoringTimer s"
  "connectionCheckTimer (clearTimeout h s) = connectionCheckTimer s"
  "lastConnectionAttempt (clearTimeout h s) = lastConnectionAttempt s"
  "reconnectionAttempts (clearTimeout h s) = reconnectionAttempts s"
  "lastKnownState (clearTimeout h s) = lastKnownState s"
  "lastActiveTimestamp (clearTimeout h s) = lastActiveTimestamp s"
  "qrGenerationTime (clearTimeout h s) = qrGenerationTime s"
  "qrAttempts (clearTimeout h s) = qrAttempts s"
  "qrAutoRefresh (clearTimeout h s) = qrAutoRefresh s"
  "nextTimer (clearTimeout h s) = nextTimer s"
  "clientsCreated (clearTimeout h s) = clientsCreated s"
  "timeouts (clearTimeout h s) = filter (\<lambda>t. fst t \<noteq> h) (timeouts s)"
  by (simp_all add: clearTimeout_def)

lemma setInterval_frame [simp]:
  "qrCodeData (snd (setInterval s)) = qrCodeData s"
  "isLoggedIn (snd (setInterval s)) = isLoggedIn s"
  "loggedInNumber (snd (setInterval s)) = loggedInNumber s"
  "loggedInName (snd (setInterval s)) = loggedInName s"
  "profilePictureUrl (snd (setInterval s)) = profilePictureUrl s"
  "connectionState (snd (setInterval s)) = connectionState s"
  "client (snd (setInterval s)) = client s"
  "isClientDestroying (snd (setInterval s)) = isClientDestroying s"
  "reconnectionTimer (snd (setInterval s)) = reconnectionTimer s"
  "monitoringTimer (snd (setInterval s)) = monitoringTimer s"
  "connectionCheckTimer (snd (setInterval s)) = connectionCheckTimer s"
  "lastConnectionAttempt (snd (setInterval s)) = lastConnectionAttempt s"
  "reconnectionAttempts (snd (setInterval s)) = reconnectionAttempts s"
  "lastKnownState (snd (setInterval s)) = lastKnownState s"
  "lastActiveTimestamp (snd (setInterval s)) = lastActiveTimestamp s"
  "qrGenerationTime (snd (setInterval s)) = qrGenerationTime s"
  "qrAttempts (snd (setInterval s)) = qrAttempts s"
  "qrAutoRefresh (snd (setInterval s)) = qrAutoRefresh s"
  "timeouts (snd (setInterval s)) = timeouts s"
  "clientsCreated (snd (setInterval s)) = clientsCreated s"
  "fst (setInterval s) = nextTimer s"
  "nextTimer (snd (setInterval s)) = Suc (nextTimer s)"
  by (simp_all add: setInterval_def)

lemma startMonitoring_frame [simp]:
  "qrCodeData (startMonitoring s) = qrCodeData s"
  "isLoggedIn (startMonitoring s) = isLoggedIn s"
  "loggedInNumber (startMonitoring s) = loggedInNumber s"
  "loggedInName (startMonitoring s) = loggedInName s"
  "profilePictureUrl (startMonitoring s) = profilePictureUrl s"
  "connectionState (startMonitoring s) = connectionState s"
  "client (startMonitoring s) = client s"
  "isClientDestroying (startMonitoring s) = isClientDestroying s"
  "reconnectionTimer (startMonitoring s) = reconnectionTimer s"
  "connectionCheckTimer (startMonitoring s) = connectionCheckTimer s"
  "lastConnectionAttempt (startMonitoring s) = lastConnectionAttempt s"
  "reconnectionAttempts (startMonitoring s) = reconnectionAttempts s"
  "lastKnownState (startMonitoring s) = lastKnownState s"
  "lastActiveTimestamp (startMonitoring s) = lastActiveTimestamp s"
  "qrGenerationTime (startMonitoring s) = qrGenerationTime s"
  "qrAttempts (startMonitoring s) = qrAttempts s"
  "qrAutoRefresh (startMonitoring s) = qrAutoRefresh s"
  "timeouts (startMonitoring s) = timeouts s"
  "clientsCreated (startMonitoring s) = clientsCreated s"
  "monitoringTimer (startMonitoring s) = Some (nextTimer s)"
  "nextTimer (startMonitoring s) = Suc (nextTimer s)"
  by (simp_all add: startMonitoring_def setInterval_def)

lemma destroyClient_frame [simp]:
  "qrCodeData (destroyClient s) = qrCodeData s"
  "loggedInNumber (destroyClient s) = loggedInNumber s"
  "isClientDestroying (destroyClient s) = isClientDestroying s"
  "reconnectionTimer (destroyClient s) = reconnectionTimer s"
  "monitoringTimer (destroyClient s) = monitoringTimer s"
  "connectionCheckTimer (destroyClient s) = connectionCheckTimer s"
  "lastConnectionAttempt (destroyClient s) = lastConnectionAttempt s"
  "reconnectionAttempts (destroyClient s) = reconnectionAttempts s"
  "lastKnownState (destroyClient s) = lastKnownState s"
  "lastActiveTimestamp (destroyClient s) = lastActiveTimestamp s"
  "qrGenerationTime (destroyClient s) = qrGenerationTime s"
  "qrAttempts (destroyClient s) = qrAttempts s"
  "qrAutoRefresh (destroyClient s) = qrAutoRefresh s"
  "timeouts (destroyClient s) = timeouts s"
  "nextTimer (destroyClient s) = nextTimer s"
  "clientsCreated (destroyClient s) = clientsCreated s"
  "client (destroyClient s) = (if isClientDestroying s then client s else None)"
  "isLoggedIn (destroyClient s) = (if client s \<noteq> None \<and> \<not> isClientDestroying s then False else isLoggedIn s)"
  "connectionState (destroyClient s) = (if client s \<noteq> None \<and> \<not> isClientDestroying s then ''DISCONNECTED'' else connectionState s)"
  "profilePictureUrl (destroyClient s) = (if client s \<noteq> None \<and> \<not> isClientDestroying s then '''' else profilePictureUrl s)"
  "loggedInName (destroyClient s) = (if client s \<noteq> None \<and> \<not> isClientDestroying s then '''' else loggedInName s)"
  by (simp_all add: destroyClient_def destroyClient_enter_def destroyClient_settle_def)

lemma handleDisconnection_frame [simp]:
  "qrCodeData (handleDisconnection s) = qrCodeData s"
  "client (handleDisconnection s) = client s"
  "isClientDestroying (handleDisconnection s) = isClientDestroying s"
  "monitoringTimer (handleDisconnection s) = monitoringTimer s"
  "lastConnectionAttempt (handleDisconnection s) = lastConnectionAttempt s"
  "reconnectionAttempts (handleDisconnection s) = reconnectionAttempts s"
  "lastKnownState (handleDisconnection s) = lastKnownState s"
  "lastActiveTimestamp (handleDisconnection s) = lastActiveTimestamp s"
  "qrGenerationTime (handleDisconnection s) = qrGenerationTime s"
  "qrAttempts (handleDisconnection s) = qrAttempts s"
  "qrAutoRefresh (handleDisconnection s) = qrAutoRefresh s"
  "clientsCreated (handleDisconnection s) = clientsCreated s"
  "connectionState (handleDisconnection s) = ''DISCONNECTED''"
  "isLoggedIn (handleDisconnection s) = False"
  "loggedInNumber (handleDisconnection s) = ''''"
  "loggedInName (handleDisconnection s) = ''''"
  "profilePictureUrl (handleDisconnection s) = ''''"
  "connectionCheckTimer (handleDisconnection s) = None"
  "reconnectionTimer (handleDisconnection s) = (if reconnectionTimer s = None then Some (nextTimer s) else reconnectionTimer s)"
  "timeouts (handleDisconnection s) = (if reconnectionTimer s = None then timeouts s @ [(nextTimer s, 5000, ReconnectAfterDisconnect)] else timeouts s)"
  "nextTimer (handleDisconnection s) = (if reconnectionTimer s = None then Suc (nextTimer s) else nextTimer s)"
  by (auto simp add: handleDisconnection_def Let_def setTimeout_def)

lemma bumpReconnectionAttempts_frame [simp]:
  "qrCodeData (bumpReconnectionAttempts s) = qrCodeData s"
  "isLoggedIn (bumpReconnectionAttempts s) = isLoggedIn s"
  "loggedInNumber (bumpReconnectionAttempts s) = loggedInNumber s"
  "loggedInName (bumpReconnectionAttempts s) = loggedInName s"
  "profilePictureUrl (bumpReconnectionAttempts s) = profilePictureUrl s"
  "connectionState (bumpReconnectionAttempts s) = connectionState s"
  "client (bumpReconnectionAttempts s) = client s"
  "isClientDestroying (bumpReconnectionAttempts s) = isClientDestroying s"
  "reconnectionTimer (bumpReconnectionAttempts s) = reconnectionTimer s"
  "monitoringTimer (bumpReconnectionAttempts s) = monitoringTimer s"
  "connectionCheckTimer (bumpReconnectionAttempts s) = connectionCheckTimer s"
  "lastConnectionAttempt (bumpReconnectionAttempts s) = lastConnectionAttempt s"
  "lastKnownState (bumpReconnectionAttempts s) = lastKnownState s"
  "lastActiveTimestamp (bumpReconnectionAttempts s) = lastActiveTimestamp s"
  "qrGenerationTime (bumpReconnectionAttempts s) = qrGenerationTime s"
  "qrAttempts (bumpReconnectionAttempts s) = qrAttempts s"
  "qrAutoRefresh (bumpReconnectionAttempts s) = qrAutoRefresh s"
  "timeouts (bumpReconnectionAttempts s) = timeouts s"
  "nextTimer (bumpReconnectionAttempts s) = nextTimer s"
  "clientsCreated (bumpReconnectionAttempts s) = clientsCreated s"
  by (simp_all add: bumpReconnectionAttempts_def Let_def)

lemma initializeWhatsAppClient_frame [simp]:
  "loggedInNumber (initializeWhatsAppClient now s) = loggedInNumber s"
  "loggedInName (initializeWhatsAppClient now s) = loggedInName s"
  "profilePictureUrl (initializeWhatsAppClient now s) = profilePictureUrl s"
  "isClientDestroying (initializeWhatsAppClient now s) = isClientDestroying s"
  "reconnectionTimer (initializeWhatsAppClient now s) = reconnectionTimer s"
  "monitoringTimer (initializeWhatsAppClient now s) = monitoringTimer s"
  "connectionCheckTimer (initializeWhatsAppClient now s) = connectionCheckTimer s"
  "reconnectionAttempts (initializeWhatsAppClient now s) = reconnectionAttempts s"
  "lastKnownState (initializeWhatsAppClient now s) = lastKnownState s"
  "lastActiveTimestamp (initializeWhatsAppClient now s) = lastActiveTimestamp s"
  "qrGenerationTime (initializeWhatsAppClient now s) = qrGenerationTime s"
  "qrAutoRefresh (initializeWhatsAppClient now s) = qrAutoRefresh s"
  "timeouts (initializeWhatsAppClient now s) = timeouts s"
  "nextTimer (initializeWhatsAppClient now s) = nextTimer s"
  by (simp_all add: initializeWhatsAppClient_def)

subsection \<open>Teardown\<close>

lemma destroyClient_twice: "destroyClient (destroyClient s) = destroyClient s"
  by (simp add: destroyClient_def destroyClient_enter_def destroyClient_settle_def)

lemma destroyClient_in_progress:
  "isClientDestroying s \<Longrightarrow> destroyClient_enter s = None \<and> destroyClient s = s"
  by (simp add: destroyClient_def destroyClient_enter_def)

lemma destroyClient_reentered:
  "destroyClient_enter s = Some s' \<Longrightarrow>
   isClientDestroying s' \<and> destroyClient_enter s' = None \<and> destroyClient s' = s'"
  by (auto simp add: destroyClient_def destroyClient_enter_def split: if_splits)

lemma teardown_fields:
  "client (teardown final s) = (if isClientDestroying s then client s else None)"
  "isLoggedIn (teardown final s) = False"
  "connectionState (teardown final s) = final"
  "loggedInNumber (teardown final s) = loggedInNumber s"
  "loggedInName (teardown final s) = []"
  "profilePictureUrl (teardown final s) = []"
  "isClientDestroying (teardown final s) = isClientDestroying s"
  by (simp_all add: teardown_def Let_def split: option.splits)

lemma reset_twice_view: "stopView (reset (reset s)) = stopView (reset s)"
  by (simp add: reset_def stopView_def teardown_fields)

text \<open>
  C5. The teardown is idempotent. \<^verbatim>\<open>destroyClient\<close> called twice in a row leaves the
  state that one call leaves (the client handle, the login flag, the connection state and
  the identity fields with it). A call made while a teardown is in progress (the flag
  \<^verbatim>\<open>isClientDestroying\<close> is set, as it is between the two halves of a running call) returns
  at once and changes nothing. The \<^verbatim>\<open>/reset\<close> handler built on it also shows the same
  client handle, login flag, connection state and identity fields after two requests as
  after one.
\<close>

theorem destroyClient_idempotent:
  "destroyClient (destroyClient s) = destroyClient s
   \<and> (isClientDestroying s \<longrightarrow> destroyClient_enter s = None \<and> destroyClient s = s)
   \<and> (\<forall>s'. destroyClient_enter s = Some s' \<longrightarrow>
         isClientDestroying s' \<and> destroyClient_enter s' = None \<and> destroyClient s' = s')
   \<and> stopView (reset (reset s)) = stopView (reset s)"
  using destroyClient_twice destroyClient_in_progress destroyClient_reentered reset_twice_view
  by blast

theorem destroyClient_idempotent_witness:
  "destroyClient (destroyClient (initial\<lparr>client := Some 0, isLoggedIn := True,
       connectionState := ''CONNECTED'', loggedInName := ''Ann''\<rparr>))
     = destroyClient (initial\<lparr>client := Some 0, isLoggedIn := True,
       connectionState := ''CONNECTED'', loggedInName := ''Ann''\<rparr>)
   \<and> stopView (destroyClient (initial\<lparr>client := Some 0, isLoggedIn := True,
       connectionState := ''CONNECTED'', loggedInName := ''Ann''\<rparr>))
     = (None, False, ''DISCONNECTED'', '''', '''', '''')
   \<and> isClientDestroying (initial\<lparr>client := Some 0, isClientDestroying := True\<rparr>)
   \<and> destroyClient (initial\<lparr>client := Some 0, isClientDestroying := True\<rparr>)
     = initial\<lparr>client := Some 0, isClientDestroying := True\<rparr>
   \<and> destroyClient_enter (initial\<lparr>client := Some 0\<rparr>)
     = Some (initial\<lparr>client := Some 0, isClientDestroying := True\<rparr>)"
  using destroyClient_idempotent [of "initial\<lparr>client := Some 0, isLoggedIn := True,
       connectionState := ''CONNECTED'', loggedInName := ''Ann''\<rparr>"]
    destroyClient_idempotent [of "initial\<lparr>client := Some 0, isClientDestroying := True\<rparr>"]
    destroyClient_idempotent [of "initial\<lparr>client := Some 0\<rparr>"]
  by (simp add: stopView_def initial_def destroyClient_enter_def)

subsection \<open>Starting a session\<close>

lemma init_blocked:
  "client s \<noteq> None \<or> isClientDestroying s \<or> now - lastConnectionAttempt s < MIN_RECONNECT_INTERVAL
   \<Longrightarrow> initializeWhatsAppClient now s = s"
  by (auto simp add: initializeWhatsAppClient_def)

lemma runCallback_keeps:
  "now - lastConnectionAttempt s < MIN_RECONNECT_INTERVAL \<Longrightarrow>
   lastConnectionAttempt (runCallback cb now s) = lastConnectionAttempt s
   \<and> clientsCreated (runCallback cb now s) = clientsCreated s"
  by (cases cb) (simp_all add: init_blocked)

lemma fireTimeout_keeps:
  "now - lastConnectionAttempt s < MIN_RECONNECT_INTERVAL \<Longrightarrow>
   lastConnectionAttempt (fireTimeout h now s) = lastConnectionAttempt s
   \<and> clientsCreated (fireTimeout h now s) = clientsCreated s"
  by (simp add: fireTimeout_def runCallback_keeps split: option.splits prod.splits)

lemma monitorTick_keeps:
  "now - lastConnectionAttempt s < MIN_RECONNECT_INTERVAL \<Longrightarrow>
   lastConnectionAttempt (monitorTick r now s) = lastConnectionAttempt s
   \<and> clientsCreated (monitorTick r now s) = clientsCreated s"
  by (simp add: monitorTick_def init_blocked split: option.splits)

lemma teardown_keeps:
  "lastConnectionAttempt (teardown final s) = lastConnectionAttempt s
   \<and> clientsCreated (teardown final s) = clientsCreated s"
  by (simp add: teardown_def Let_def split: option.splits)

lemma onQr_keeps:
  "lastConnectionAttempt (onQr qr enc now s) = lastConnectionAttempt s
   \<and> clientsCreated (onQr qr enc now s) = clientsCreated s"
  by (simp add: onQr_def Let_def split: option.splits)

lemma onReady_keeps:
  "lastConnectionAttempt (onReady user p now s) = lastConnectionAttempt s
   \<and> clientsCreated (onReady user p now s) = clientsCreated s"
  by (simp add: onReady_def fetchProfileInfo_def Let_def split_def split: option.splits profile.splits)

lemma step_keeps:
  assumes "\<forall>now. startClock e = Some now \<longrightarrow> now - lastConnectionAttempt s < MIN_RECONNECT_INTERVAL"
  shows "lastConnectionAttempt (step e s) = lastConnectionAttempt s
         \<and> clientsCreated (step e s) = clientsCreated s"
proof (cases e)
  case (Boot now) with assms show ?thesis by (simp add: init_blocked)
next
  case InitializeRejected then show ?thesis by (simp add: initializeFailed_def Let_def split_def)
next
  case (QrEvent qr enc now) then show ?thesis by (simp add: onQr_keeps)
next
  case AuthenticatedEvent then show ?thesis by (simp add: onAuthenticated_def)
next
  case AuthFailureEvent then show ?thesis by (simp add: onAuthFailure_def)
next
  case (ReadyEvent u p now) then show ?thesis by (simp add: onReady_keeps)
next
  case DisconnectedEvent then show ?thesis by simp
next
  case (ChangeStateEvent st) then show ?thesis by (simp add: onChangeState_def Let_def)
next
  case (ChangeBatteryEvent now) then show ?thesis by (simp add: onChangeBattery_def)
next
  case (TimeoutFires h now) with assms show ?thesis by (simp add: fireTimeout_keeps)
next
  case (ConnectionCheckTick r now) then show ?thesis
    by (simp add: checkActiveConnection_def Let_def split: option.splits)
next
  case (MonitorTick r now) with assms show ?thesis by (simp add: monitorTick_keeps)
next
  case (PingRequest r now) then show ?thesis by (simp add: ping_def split: sum.splits)
next
  case (StatusRequest r now) then show ?thesis by (simp add: statusRoute_def split: option.splits)
next
  case GenerateQrRequest then show ?thesis by (simp add: generateQr_def)
next
  case ToggleRequest then show ?thesis by (simp add: toggleQrAutoRefresh_def)
next
  case ResetRequest then show ?thesis by (simp add: reset_def teardown_keeps)
next
  case LogoutRequest then show ?thesis by (simp add: logout_def teardown_keeps)
qed

lemma run_keeps:
  "\<forall>e \<in> set evs. \<forall>now. startClock e = Some now \<longrightarrow> now - lastConnectionAttempt s < MIN_RECONNECT_INTERVAL
   \<Longrightarrow> lastConnectionAttempt (run evs s) = lastConnectionAttempt s
       \<and> clientsCreated (run evs s) = clientsCreated s"
proof (induction evs arbitrary: s)
  case Nil
  then show ?case by (simp add: run_def)
next
  case (Cons e evs)
  have k: "lastConnectionAttempt (step e s) = lastConnectionAttempt s
         \<and> clientsCreated (step e s) = clientsCreated s"
    using Cons.prems by (intro step_keeps) simp
  have "lastConnectionAttempt (run evs (step e s)) = lastConnectionAttempt (step e s)
       \<and> clientsCreated (run evs (step e s)) = clientsCreated (step e s)"
    using Cons.prems k by (intro Cons.IH) simp
  with k show ?case by (simp add: run_def)
qed

text \<open>
  C6. A call of \<^verbatim>\<open>initializeWhatsAppClient\<close> made while a client exists, while a teardown
  is in progress, or less than \<open>MIN_RECONNECT_INTERVAL\<close> after the last attempt returns
  with the state as it was: no client is created and \<open>connectionState\<close> is not touched.
  When a call at \<open>t1\<close> has created a client, then whatever happens afterwards (events of
  the client, timers, requests, a teardown of that client), as long as every further
  start is tried less than the interval after \<open>t1\<close>, no second client is created, and a
  call at such a \<open>t2\<close> changes nothing.
\<close>

theorem start_once_per_interval:
  "(client s \<noteq> None \<or> isClientDestroying s
      \<or> t2 - lastConnectionAttempt s < MIN_RECONNECT_INTERVAL
     \<longrightarrow> initializeWhatsAppClient t2 s = s)
   \<and> (clientsCreated (initializeWhatsAppClient t1 s) \<noteq> clientsCreated s
        \<and> t2 - t1 < MIN_RECONNECT_INTERVAL
        \<and> (\<forall>e \<in> set evs. \<forall>now. startClock e = Some now \<longrightarrow> now - t1 < MIN_RECONNECT_INTERVAL)
     \<longrightarrow> clientsCreated (initializeWhatsAppClient t1 s) = Suc (clientsCreated s)
         \<and> client (initializeWhatsAppClient t1 s) \<noteq> None
         \<and> initializeWhatsAppClient t2 (initializeWhatsAppClient t1 s)
             = initializeWhatsAppClient t1 s
         \<and> clientsCreated (run evs (initializeWhatsAppClient t1 s)) = Suc (clientsCreated s)
         \<and> initializeWhatsAppClient t2 (run evs (initializeWhatsAppClient t1 s))
             = run evs (initializeWhatsAppClient t1 s))"
proof (intro conjI impI)
  assume "client s \<noteq> None \<or> isClientDestroying s
      \<or> t2 - lastConnectionAttempt s < MIN_RECONNECT_INTERVAL"
  then show "initializeWhatsAppClient t2 s = s" by (rule init_blocked)
next
  assume a: "clientsCreated (initializeWhatsAppClient t1 s) \<noteq> clientsCreated s
        \<and> t2 - t1 < MIN_RECONNECT_INTERVAL
        \<and> (\<forall>e \<in> set evs. \<forall>now. startClock e = Some now \<longrightarrow> now - t1 < MIN_RECONNECT_INTERVAL)"
  let ?s1 = "initializeWhatsAppClient t1 s"
  from a have c: "clientsCreated ?s1 = Suc (clientsCreated s)" "client ?s1 \<noteq> None"
      "lastConnectionAttempt ?s1 = t1"
    by (auto simp add: initializeWhatsAppClient_def split: if_splits)
  from a c have k: "lastConnectionAttempt (run evs ?s1) = lastConnectionAttempt ?s1
       \<and> clientsCreated (run evs ?s1) = clientsCreated ?s1"
    by (intro run_keeps) simp
  show "clientsCreated ?s1 = Suc (clientsCreated s)" by (rule c)
  show "client ?s1 \<noteq> None" by (rule c)
  show "initializeWhatsAppClient t2 ?s1 = ?s1" using c by (intro init_blocked) simp
  show "clientsCreated (run evs ?s1) = Suc (clientsCreated s)" using k c by simp
  show "initializeWhatsAppClient t2 (run evs ?s1) = run evs ?s1"
    using k c a by (intro init_blocked) simp
qed


theorem start_once_per_interval_witness:
  "clientsCreated (initializeWhatsAppClient 1700000000000 initial) \<noteq> clientsCreated initial
   \<and> (1700000001000::int) - 1700000000000 < MIN_RECONNECT_INTERVAL
   \<and> client (run [ResetRequest, TimeoutFires 1 1700000004000] (initializeWhatsAppClient 1700000000000 initial))
       = None
   \<and> clientsCreated
        (run [ResetRequest, TimeoutFires 1 1700000004000] (initializeWhatsAppClient 1700000000000 initial)) = 1
   \<and> initializeWhatsAppClient 1700000001000
        (run [ResetRequest, TimeoutFires 1 1700000004000] (initializeWhatsAppClient 1700000000000 initial))
       = run [ResetRequest, TimeoutFires 1 1700000004000] (initializeWhatsAppClient 1700000000000 initial)"
  using start_once_per_interval [of initial 1700000001000 1700000000000 "[ResetRequest, TimeoutFires 1 1700000004000]"]
  by (simp add: MIN_RECONNECT_INTERVAL_def initial_def initializeWhatsAppClient_def run_def
      reset_def teardown_def Let_def fireTimeout_def)

subsection \<open>Liveness\<close>

lemma check_fail:
  "isLoggedIn s \<Longrightarrow> client s \<noteq> None \<Longrightarrow>
   checkActiveConnection None now s =
     (if now - lastActiveTimestamp s > 30000 then handleDisconnection s else s)"
  by (auto simp add: checkActiveConnection_def)

lemma monitor_fail:
  "isLoggedIn s \<Longrightarrow> client s \<noteq> None \<Longrightarrow>
   monitorTick None now s =
     (if now - lastActiveTimestamp s > 30000 then handleDisconnection s else s)"
  by (auto simp add: monitorTick_def)

lemma check_ok_then_fail:
  assumes "isLoggedIn s" "client s \<noteq> None" "t2 - t1 \<le> 30000"
  shows "checkActiveConnection None t2 (checkActiveConnection (Some ''CONNECTED'') t1 s)
         = checkActiveConnection (Some ''CONNECTED'') t1 s"
proof -
  let ?s1 = "checkActiveConnection (Some ''CONNECTED'') t1 s"
  have "isLoggedIn ?s1" "client ?s1 \<noteq> None" "lastActiveTimestamp ?s1 = t1"
    using assms by (auto simp add: checkActiveConnection_def Let_def)
  with assms(3) show ?thesis by (simp add: check_fail)
qed

text \<open>
  C7. While the supervisor believes it is connected (logged in, with a client), a failed
  liveness query, in \<^verbatim>\<open>checkActiveConnection\<close> and in the periodic monitor alike, leaves
  the state as it was when the last successful check is at most 30000 ms old, and runs
  the disconnection handler when it is older. In particular one failed query that follows
  a successful one by at most 30 seconds does not reach the disconnection path.
\<close>

theorem liveness_silence_window:
  "isLoggedIn s \<and> client s \<noteq> None \<longrightarrow>
     (now - lastActiveTimestamp s \<le> 30000 \<longrightarrow>
        checkActiveConnection None now s = s \<and> monitorTick None now s = s)
     \<and> (now - lastActiveTimestamp s > 30000 \<longrightarrow>
        checkActiveConnection None now s = handleDisconnection s
        \<and> monitorTick None now s = handleDisconnection s)
     \<and> (t2 - t1 \<le> 30000 \<longrightarrow>
        checkActiveConnection None t2 (checkActiveConnection (Some ''CONNECTED'') t1 s)
          = checkActiveConnection (Some ''CONNECTED'') t1 s)"
  using check_fail [of s now] monitor_fail [of s now] check_ok_then_fail [of s t2 t1]
  by simp

theorem liveness_silence_window_witness:
  "isLoggedIn (initial\<lparr>isLoggedIn := True, client := Some 0, connectionState := ''CONNECTED'',
       lastActiveTimestamp := 1700000000000\<rparr>)
   \<and> client (initial\<lparr>isLoggedIn := True, client := Some 0, connectionState := ''CONNECTED'',
       lastActiveTimestamp := 1700000000000\<rparr>) \<noteq> None
   \<and> checkActiveConnection None 1700000015000 (initial\<lparr>isLoggedIn := True, client := Some 0,
       connectionState := ''CONNECTED'', lastActiveTimestamp := 1700000000000\<rparr>)
     = initial\<lparr>isLoggedIn := True, client := Some 0, connectionState := ''CONNECTED'',
       lastActiveTimestamp := 1700000000000\<rparr>
   \<and> connectionState (checkActiveConnection None 1700000030001 (initial\<lparr>isLoggedIn := True,
       client := Some 0, connectionState := ''CONNECTED'', lastActiveTimestamp := 1700000000000\<rparr>))
     = ''DISCONNECTED''
   \<and> reconnectionTimer (monitorTick None 1700000030001 (initial\<lparr>isLoggedIn := True,
       client := Some 0, connectionState := ''CONNECTED'', lastActiveTimestamp := 1700000000000\<rparr>))
     = Some 0"
  using liveness_silence_window [of "initial\<lparr>isLoggedIn := True, client := Some 0,
       connectionState := ''CONNECTED'', lastActiveTimestamp := 1700000000000\<rparr>" 1700000015000 0 0]
    liveness_silence_window [of "initial\<lparr>isLoggedIn := True, client := Some 0,
       connectionState := ''CONNECTED'', lastActiveTimestamp := 1700000000000\<rparr>" 1700000030001 0 0]
  by (simp add: initial_def)

subsection \<open>The connection state and the reconnection timer\<close>




















lemma timersOk_update [simp]:
  "timersOk (s\<lparr>qrCodeData := v0\<rparr>) = timersOk s"
  "timersOk (s\<lparr>isLoggedIn := v1\<rparr>) = timersOk s"
  "timersOk (s\<lparr>loggedInNumber := v2\<rparr>) = timersOk s"
  "timersOk (s\<lparr>loggedInName := v3\<rparr>) = timersOk s"
  "timersOk (s\<lparr>profilePictureUrl := v4\<rparr>) = timersOk s"
  "timersOk (s\<lparr>connectionState := v5\<rparr>) = timersOk s"
  "timersOk (s\<lparr>client := v6\<rparr>) = timersOk s"
  "timersOk (s\<lparr>isClientDestroying := v7\<rparr>) = timersOk s"
  "timersOk (s\<lparr>monitoringTimer := v8\<rparr>) = timersOk s"
  "timersOk (s\<lparr>connectionCheckTimer := v9\<rparr>) = timersOk s"
  "timersOk (s\<lparr>lastConnectionAttempt := v10\<rparr>) = timersOk s"
  "timersOk (s\<lparr>reconnectionAttempts := v11\<rparr>) = timersOk s"
  "timersOk (s\<lparr>lastKnownState := v12\<rparr>) = timersOk s"
  "timersOk (s\<lparr>lastActiveTimestamp := v13\<rparr>) = timersOk s"
  "timersOk (s\<lparr>qrGenerationTime := v14\<rparr>) = timersOk s"
  "timersOk (s\<lparr>qrAttempts := v15\<rparr>) = timersOk s"
  "timersOk (s\<lparr>qrAutoRefresh := v16\<rparr>) = timersOk s"
  "timersOk (s\<lparr>clientsCreated := v17\<rparr>) = timersOk s"
  by (simp_all add: timersOk_def reconnectionPending_def)




















subsection \<open>The /ping route answers 200\<close>

text \<open>
  C10. The \<^verbatim>\<open>/ping\<close> endpoint answers every request with HTTP status 200: when the
  supervisor is not connected, when the state query succeeds and when it throws. The
  outcome shows only in the \<open>success\<close> flag and the message of the body.
\<close>

theorem ping_always_200:
  "httpStatus (fst (ping r now s)) = 200
   \<and> success (fst (ping r now s)) = (isLoggedIn s \<and> client s \<noteq> None \<and> \<not> isl r)"
  by (cases r) (simp_all add: ping_def)

theorem ping_always_200_witness:
  "httpStatus (fst (ping (Inl ''timeout'') 1000 (initial\<lparr>isLoggedIn := True, client := Some 0\<rparr>))) = 200
   \<and> \<not> success (fst (ping (Inl ''timeout'') 1000 (initial\<lparr>isLoggedIn := True, client := Some 0\<rparr>)))
   \<and> responseMessage (fst (ping (Inl ''timeout'') 1000 (initial\<lparr>isLoggedIn := True, client := Some 0\<rparr>)))
       = ''Failed to check state: timeout''"
  using ping_always_200 [of "Inl ''timeout''" 1000 "initial\<lparr>isLoggedIn := True, client := Some 0\<rparr>"]
  by (simp add: ping_def initial_def)

section \<open>Properties of the dispatch engine\<close>

subsection \<open>What each step adds to the trace\<close>

lemma callSend_effect [simp]:
  "trace (snd (callSend P i addr pl st)) = trace st @ [Send i addr pl (fst (callSend P i addr pl st))]"
  "successCount (snd (callSend P i addr pl st)) = successCount st"
  "failCount (snd (callSend P i addr pl st)) = failCount st"
  by (simp_all add: callSend_def split_def Let_def)


lemma sleep_effect [simp]:
  "trace (sleep ms st) = trace st @ [Sleep ms]"
  "successCount (sleep ms st) = successCount st"
  "failCount (sleep ms st) = failCount st"
  by (simp_all add: sleep_def)

lemma delivered_effect [simp]:
  "trace (delivered i st) = trace st @ [Delivered i]"
  "successCount (delivered i st) = Suc (successCount st)"
  "failCount (delivered i st) = failCount st"
  by (simp_all add: delivered_def)

lemma failed_effect [simp]:
  "trace (failed i why st) = trace st @ [Failed i why]"
  "successCount (failed i why st) = successCount st"
  "failCount (failed i why st) = Suc (failCount st)"
  by (simp_all add: failed_def)

lemma jitterSleep_effect [simp]:
  "trace (jitterSleep P st) = trace st @ [Sleep (600 + fst (random P (world st)) mod 300)]"
  "successCount (jitterSleep P st) = successCount st"
  "failCount (jitterSleep P st) = failCount st"
  by (simp_all add: jitterSleep_def split_def Let_def)


lemma doneItems_append [simp]: "doneItems (xs @ ys) = doneItems xs @ doneItems ys"
  by (simp add: doneItems_def)

lemma doneItems_other [simp]:
  "doneItems [Sleep ms] = []" "doneItems [BatchStart k a b] = []" "doneItems [] = []"
  by (simp_all add: doneItems_def)


subsection \<open>Orderly traces\<close>





lemma counted_other:
  "counted st \<Longrightarrow> \<not> terminal a \<Longrightarrow> successCount st' = successCount st
   \<Longrightarrow> failCount st' = failCount st \<Longrightarrow> trace st' = trace st @ [a] \<Longrightarrow> counted st'"
  by (cases a) (simp_all add: counted_def)



subsection \<open>The loops of /api/send-messages\<close>











text \<open>
  The outer loop of the batched endpoint. Whatever the list and the provider, the counters
  stay in agreement with the trace and the progress is kept; the loop completes only
  with every item done.
\<close>

lemma announceBatch_effect [simp]:
  "trace (announceBatch batchStart batchEnd st)
     = trace st @ [BatchStart (batchStart div BATCH_SIZE + 1) (batchStart + 1) batchEnd]"
  "successCount (announceBatch batchStart batchEnd st) = successCount st"
  "failCount (announceBatch batchStart batchEnd st) = failCount st"
  by (simp_all add: announceBatch_def)





lemma chunks_Nil [simp]: "chunks k [] = []"
  by (subst chunks.simps) simp




lemma outline_single [simp]:
  "outline [BatchStart k a b] = [Batch k a b]" "outline [Sleep BATCH_DELAY] = [Pause]"
  by (simp_all add: outline_def)

subsection \<open>Accounting and order of /api/send-messages\<close>














subsection \<open>Target normalization and validation\<close>

text \<open>\<open>matchesAddress\<close> accepts the language of the regular expression.\<close>

lemma matchesAddress_iff:
  "matchesAddress x \<longleftrightarrow> (\<exists>ds. ds \<noteq> [] \<and> list_all isDigit ds \<and> x = ds @ ''@c.us'')"
proof
  assume m: "matchesAddress x"
  have "x = takeWhile isDigit x @ dropWhile isDigit x" by simp
  with m have "x = takeWhile isDigit x @ ''@c.us''" by (simp add: matchesAddress_def)
  moreover have "list_all isDigit (takeWhile isDigit x)"
    by (simp add: list_all_iff) (metis set_takeWhileD)
  moreover from m have "takeWhile isDigit x \<noteq> []" by (simp add: matchesAddress_def)
  ultimately show "\<exists>ds. ds \<noteq> [] \<and> list_all isDigit ds \<and> x = ds @ ''@c.us''" by blast
next
  assume "\<exists>ds. ds \<noteq> [] \<and> list_all isDigit ds \<and> x = ds @ ''@c.us''"
  then obtain ds where ds: "ds \<noteq> []" "list_all isDigit ds" "x = ds @ ''@c.us''" by blast
  have n: "\<not> isDigit CHR ''@''" by (simp add: isDigit_def)
  from ds(2) have t: "takeWhile isDigit (ds @ ''@c.us'') = ds"
    using n by (simp add: list_all_iff takeWhile_append2)
  from ds(2) have d: "dropWhile isDigit (ds @ ''@c.us'') = ''@c.us''"
    using n by (simp add: list_all_iff dropWhile_append2)
  from ds(1,3) t d show "matchesAddress x" by (simp add: matchesAddress_def)
qed

lemma stringIncludes_suffix: "stringIncludes p (xs @ p)"
proof (induction xs)
  case Nil
  show ?case by (cases p) (simp_all add: startsWith_def)
next
  case (Cons c xs)
  then show ?case by simp
qed

lemma formattedNumber_longer: "length (formattedNumber n) > length n"
  by (auto simp add: formattedNumber_def)

lemma matchesAddress_no_plus: "matchesAddress n \<Longrightarrow> \<not> startsWith ''+'' n"
proof -
  assume "matchesAddress n"
  then obtain ds where ds: "ds \<noteq> []" "list_all isDigit ds" "n = ds @ ''@c.us''"
    unfolding matchesAddress_iff by blast
  then obtain c cs where c: "ds = c # cs" by (cases ds) simp_all
  with ds(2) have "isDigit c" by simp
  then have "c \<noteq> CHR ''+''" by (auto simp add: isDigit_def)
  with ds(3) c show ?thesis by (simp add: startsWith_def)
qed

lemma canonical_suffixed_again:
  assumes "matchesAddress n"
  shows "formattedNumber n = n @ ''@c.us''" "\<not> matchesAddress (formattedNumber n)"
proof -
  show f: "formattedNumber n = n @ ''@c.us''"
    using matchesAddress_no_plus [OF assms] by (simp add: formattedNumber_def)
  from assms obtain ds where ds: "ds \<noteq> []" "list_all isDigit ds" "n = ds @ ''@c.us''"
    unfolding matchesAddress_iff by blast
  have n: "\<not> isDigit CHR ''@''" by (simp add: isDigit_def)
  from ds(2) have "dropWhile isDigit (ds @ ''@c.us@c.us'') = ''@c.us@c.us''"
    using n by (simp add: list_all_iff dropWhile_append2)
  with ds(3) show "\<not> matchesAddress (formattedNumber n)"
    unfolding f by (simp add: matchesAddress_def)
qed

lemma canonical_passes_qr: "matchesAddress n \<Longrightarrow> formattedNumberQr (Some n) = Some n"
proof -
  assume m: "matchesAddress n"
  then obtain ds where "n = ds @ ''@c.us''" unfolding matchesAddress_iff by blast
  then have "stringIncludes ''@c.us'' n" by (simp add: stringIncludes_suffix)
  with m show ?thesis by (simp add: formattedNumberQr_def)
qed

text \<open>
  C3, evaluated. The normalization of \<^verbatim>\<open>/api/send-messages\<close> and \<^verbatim>\<open>/api/send-bulk\<close> strips a
  leading \<^verbatim>\<open>+\<close> and appends \<^verbatim>\<open>@c.us\<close>, so \<^verbatim>\<open>+15551234567\<close> and \<^verbatim>\<open>15551234567\<close> give the same
  address. It appends the marker to every target, though: no target is passed through
  unchanged, and a target that is in canonical form already gets the marker a second
  time and is canonical no more. \<^verbatim>\<open>/api/send-bulk-qr\<close> passes such a target through as
  it is.
\<close>

theorem canonical_target_suffixed_again:
  "formattedNumber ''+15551234567'' = ''15551234567@c.us''
   \<and> formattedNumber ''15551234567'' = ''15551234567@c.us''
   \<and> formattedNumber ''15551234567@c.us'' = ''15551234567@c.us@c.us''
   \<and> formattedNumberQr (Some ''15551234567@c.us'') = Some ''15551234567@c.us''
   \<and> formattedNumber n \<noteq> n
   \<and> (matchesAddress n \<longrightarrow>
        formattedNumber n = n @ ''@c.us'' \<and> \<not> matchesAddress (formattedNumber n)
        \<and> formattedNumberQr (Some n) = Some n)"
proof -
  have a: "formattedNumber ''+15551234567'' = ''15551234567@c.us''
      \<and> formattedNumber ''15551234567'' = ''15551234567@c.us''
      \<and> formattedNumber ''15551234567@c.us'' = ''15551234567@c.us@c.us''"
    by (simp add: formattedNumber_def startsWith_def)
  have b: "formattedNumberQr (Some ''15551234567@c.us'') = Some ''15551234567@c.us''"
    by code_simp
  have c: "formattedNumber n \<noteq> n" using formattedNumber_longer [of n] by auto
  from a b c show ?thesis
    using canonical_suffixed_again [of n] canonical_passes_qr [of n] by blast
qed

theorem canonical_target_suffixed_again_witness:
  "matchesAddress ''15551234567@c.us''
   \<and> formattedNumber ''15551234567@c.us'' = ''15551234567@c.us'' @ ''@c.us''
   \<and> \<not> matchesAddress (formattedNumber ''15551234567@c.us'')
   \<and> formattedNumberQr (Some ''15551234567@c.us'') = Some ''15551234567@c.us''"
proof -
  have m: "matchesAddress ''15551234567@c.us''" by code_simp
  with canonical_target_suffixed_again [of "''15551234567@c.us''"] show ?thesis by blast
qed

lemma sendItem_text_only:
  "qrData m = [] \<Longrightarrow>
   trace (sendItem P i addr m st)
     = trace st @ [Send i addr (Text (message m)) (fst (sendMessage P addr (Text (message m)) (world st))),
                   if fst (sendMessage P addr (Text (message m)) (world st))
                   then Delivered i else Failed i SendError]"
  by (simp add: sendItem_def sendText_def callSend_def split_def Let_def)

text \<open>
  C4, evaluated. In \<^verbatim>\<open>/api/send-bulk-qr\<close> an item whose normalized target does not match
  the pattern is counted as failed for an invalid address, and nothing else happens for
  it: no encode, no send, no delay. \<^verbatim>\<open>/api/send-messages\<close> has no validation: whatever
  the target, the text of an item without attachment is handed to
  \<^verbatim>\<open>client.sendMessage\<close>, as it is for the target \<^verbatim>\<open>abc\<close>.
\<close>

theorem invalid_target_validated_in_bulk_qr_only:
  "(formattedNumberQr (number (messages ! i)) = None \<longrightarrow>
      afterQrItem P messages subBatchEnd i st = failed i InvalidAddress st
      \<and> trace (afterQrItem P messages subBatchEnd i st) = trace st @ [Failed i InvalidAddress])
   \<and> (qrData m = [] \<longrightarrow>
        trace (sendItem P i (formattedNumber n) m st)
          = trace st @ [Send i (formattedNumber n) (Text (message m))
                          (fst (sendMessage P (formattedNumber n) (Text (message m)) (world st))),
                        if fst (sendMessage P (formattedNumber n) (Text (message m)) (world st))
                        then Delivered i else Failed i SendError])
   \<and> formattedNumberQr (Some ''abc'') = None
   \<and> trace (endState (sendBulkQr exampleProvider
        [\<lparr>number = Some ''abc'', message = ''hi'', qrData = ''''\<rparr>] 0))
       = [BatchStart 1 1 1, Failed 0 InvalidAddress]
   \<and> trace (endState (sendMessages exampleProvider
        [\<lparr>number = Some ''abc'', message = ''hi'', qrData = ''''\<rparr>] 0))
       = [Send 0 ''abc@c.us'' (Text ''hi'') True, Delivered 0]
   \<and> trace (endState (sendMessagesBatched exampleProvider
        [\<lparr>number = Some ''abc'', message = ''hi'', qrData = ''''\<rparr>] 0))
       = [BatchStart 1 1 1, Send 0 ''abc@c.us'' (Text ''hi'') True, Delivered 0]"
proof -
  have a: "formattedNumberQr (number (messages ! i)) = None \<longrightarrow>
      afterQrItem P messages subBatchEnd i st = failed i InvalidAddress st
      \<and> trace (afterQrItem P messages subBatchEnd i st) = trace st @ [Failed i InvalidAddress]"
    by (simp add: afterQrItem_def)
  have b: "qrData m = [] \<longrightarrow>
        trace (sendItem P i (formattedNumber n) m st)
          = trace st @ [Send i (formattedNumber n) (Text (message m))
                          (fst (sendMessage P (formattedNumber n) (Text (message m)) (world st))),
                        if fst (sendMessage P (formattedNumber n) (Text (message m)) (world st))
                        then Delivered i else Failed i SendError]"
    using sendItem_text_only [of m P i "formattedNumber n" st] by blast
  have c: "formattedNumberQr (Some ''abc'') = None" by code_simp
  have d: "trace (endState (sendBulkQr exampleProvider
        [\<lparr>number = Some ''abc'', message = ''hi'', qrData = ''''\<rparr>] 0))
       = [BatchStart 1 1 1, Failed 0 InvalidAddress]" by code_simp
  have e: "trace (endState (sendMessages exampleProvider
        [\<lparr>number = Some ''abc'', message = ''hi'', qrData = ''''\<rparr>] 0))
       = [Send 0 ''abc@c.us'' (Text ''hi'') True, Delivered 0]" by code_simp
  have f: "trace (endState (sendMessagesBatched exampleProvider
        [\<lparr>number = Some ''abc'', message = ''hi'', qrData = ''''\<rparr>] 0))
       = [BatchStart 1 1 1, Send 0 ''abc@c.us'' (Text ''hi'') True, Delivered 0]" by code_simp
  from a b c d e f show ?thesis by blast
qed

theorem invalid_target_validated_in_bulk_qr_only_witness:
  "formattedNumberQr (number ([\<lparr>number = Some ''12ab'', message = ''hi'', qrData = ''Q''\<rparr>] ! 0))
     = None
   \<and> trace (afterQrItem exampleProvider
        [\<lparr>number = Some ''12ab'', message = ''hi'', qrData = ''Q''\<rparr>] 1 0 (newJob 0))
       = [Failed 0 InvalidAddress]
   \<and> qrData \<lparr>number = Some ''12ab'', message = ''hi'', qrData = ''''\<rparr> = []
   \<and> trace (sendItem exampleProvider 0 (formattedNumber ''12ab'')
        \<lparr>number = Some ''12ab'', message = ''hi'', qrData = ''''\<rparr> (newJob 0))
       = [Send 0 ''12ab@c.us'' (Text ''hi'') True, Delivered 0]"
proof -
  have a: "formattedNumberQr
      (number ([\<lparr>number = Some ''12ab'', message = ''hi'', qrData = ''Q''\<rparr>] ! 0)) = None"
    by code_simp
  have b: "qrData \<lparr>number = Some ''12ab'', message = ''hi'', qrData = ''''\<rparr> = []" by simp
  have c: "formattedNumber ''12ab'' = ''12ab@c.us''"
    by (simp add: formattedNumber_def startsWith_def)
  from a b c show ?thesis
    using invalid_target_validated_in_bulk_qr_only [of
        "[\<lparr>number = Some ''12ab'', message = ''hi'', qrData = ''Q''\<rparr>]" 0 exampleProvider 1
        "newJob 0" "\<lparr>number = Some ''12ab'', message = ''hi'', qrData = ''''\<rparr>" "''12ab''"]
    by (simp add: newJob_def exampleProvider_def)
qed

subsection \<open>Encoding the attachment\<close>

lemma generateQRCode_None:
  "d \<noteq> [] \<Longrightarrow> fst (toBuffer P d (world st)) = None \<Longrightarrow>
   fst (generateQRCode P i d st) = None
   \<and> trace (snd (generateQRCode P i d st)) = trace st @ [Encode i d False]
   \<and> world (snd (generateQRCode P i d st)) = snd (toBuffer P d (world st))"
  by (simp add: generateQRCode_def split_def Let_def)

lemma generateQRCode_Some:
  "d \<noteq> [] \<Longrightarrow> fst (toBuffer P d (world st)) = Some b \<Longrightarrow>
   fst (generateQRCode P i d st) = Some b
   \<and> trace (snd (generateQRCode P i d st)) = trace st @ [Encode i d True]
   \<and> world (snd (generateQRCode P i d st)) = snd (toBuffer P d (world st))"
  by (simp add: generateQRCode_def split_def Let_def)

lemma sleep_world [simp]: "world (sleep ms st) = world st"
  by (simp add: sleep_def)

text \<open>Both encodes of an attempt fail: the loop rethrows after one retry.\<close>

lemma encodeFrom_fails:
  assumes "d \<noteq> []" "\<forall>w. fst (toBuffer P d w) = None"
  shows "fst (encodeFrom P i d 0 st) = Thrown"
    and "trace (snd (encodeFrom P i d 0 st))
           = trace st @ [Encode i d False, Sleep 2000, Encode i d False]"
proof -
  let ?g1 = "generateQRCode P i d st"
  let ?s1 = "sleep 2000 (snd ?g1)"
  let ?g2 = "generateQRCode P i d ?s1"
  have g1: "fst ?g1 = None" "trace (snd ?g1) = trace st @ [Encode i d False]"
    using generateQRCode_None [of d P st i] assms by simp_all
  have g2: "fst ?g2 = None" "trace (snd ?g2) = trace ?s1 @ [Encode i d False]"
    using generateQRCode_None [of d P ?s1 i] assms by simp_all
  have e2: "encodeFrom P i d (Suc 0) ?s1 = (Thrown, snd ?g2)"
    using g2 by (subst encodeFrom.simps) simp
  have e1: "encodeFrom P i d 0 st = encodeFrom P i d (Suc 0) ?s1"
    using g1 by (subst encodeFrom.simps) simp
  show "fst (encodeFrom P i d 0 st) = Thrown" by (simp add: e1 e2)
  show "trace (snd (encodeFrom P i d 0 st))
           = trace st @ [Encode i d False, Sleep 2000, Encode i d False]"
    using g1 g2 by (simp add: e1 e2)
qed

text \<open>The first encode fails and the retry succeeds.\<close>

lemma encodeFrom_retry_succeeds:
  assumes "d \<noteq> []" "fst (toBuffer P d (world st)) = None"
      "fst (toBuffer P d (snd (toBuffer P d (world st)))) = Some b"
  shows "fst (encodeFrom P i d 0 st) = Buffer b"
    and "trace (snd (encodeFrom P i d 0 st))
           = trace st @ [Encode i d False, Sleep 2000, Encode i d True]"
    and "world (snd (encodeFrom P i d 0 st))
           = snd (toBuffer P d (snd (toBuffer P d (world st))))"
proof -
  let ?g1 = "generateQRCode P i d st"
  let ?s1 = "sleep 2000 (snd ?g1)"
  let ?g2 = "generateQRCode P i d ?s1"
  have g1: "fst ?g1 = None" "trace (snd ?g1) = trace st @ [Encode i d False]"
      "world (snd ?g1) = snd (toBuffer P d (world st))"
    using generateQRCode_None [of d P st i] assms by simp_all
  have g2: "fst ?g2 = Some b" "trace (snd ?g2) = trace ?s1 @ [Encode i d True]"
      "world (snd ?g2) = snd (toBuffer P d (world ?s1))"
    using generateQRCode_Some [of d P ?s1 b i] assms g1 by simp_all
  have e2: "encodeFrom P i d (Suc 0) ?s1 = (Buffer b, snd ?g2)"
    using g2 by (subst encodeFrom.simps) simp
  have e1: "encodeFrom P i d 0 st = encodeFrom P i d (Suc 0) ?s1"
    using g1 by (subst encodeFrom.simps) simp
  show "fst (encodeFrom P i d 0 st) = Buffer b" by (simp add: e1 e2)
  show "trace (snd (encodeFrom P i d 0 st))
           = trace st @ [Encode i d False, Sleep 2000, Encode i d True]"
    using g1 g2 by (simp add: e1 e2)
  show "world (snd (encodeFrom P i d 0 st))
           = snd (toBuffer P d (snd (toBuffer P d (world st))))"
    using g1 g2 by (simp add: e1 e2)
qed

lemma attempts_encoder_down:
  assumes "qrData m \<noteq> []" "\<forall>w. fst (toBuffer P (qrData m) w) = None"
  shows "\<exists>ok. trace (attemptsFrom P i addr m 0 st)
           = trace st @ [Encode i (qrData m) False, Sleep 2000, Encode i (qrData m) False,
               Sleep 3000,
               Encode i (qrData m) False, Sleep 2000, Encode i (qrData m) False,
               Send i addr (Text (message m)) ok,
               if ok then Delivered i else Failed i SendError]"
proof -
  let ?e1 = "encodeFrom P i (qrData m) 0 st"
  let ?s1 = "sleep 3000 (snd ?e1)"
  let ?e2 = "encodeFrom P i (qrData m) 0 ?s1"
  let ?c = "callSend P i addr (Text (message m)) (snd ?e2)"
  have e1: "fst ?e1 = Thrown" "trace (snd ?e1)
      = trace st @ [Encode i (qrData m) False, Sleep 2000, Encode i (qrData m) False]"
    using encodeFrom_fails [OF assms, of i st] by simp_all
  have e2: "fst ?e2 = Thrown" "trace (snd ?e2)
      = trace ?s1 @ [Encode i (qrData m) False, Sleep 2000, Encode i (qrData m) False]"
    using encodeFrom_fails [OF assms, of i ?s1] by simp_all
  have b1: "attemptBody P i addr m (Suc 0) st = (False, ?s1)"
    using assms(1) e1(1)
    by (simp add: attemptBody_def qrErrorCaught_def MAX_ATTEMPTS_def split_def
        split: encoded.splits)
  have b2: "attemptBody P i addr m (Suc (Suc 0)) ?s1
      = (if fst ?c then (True, delivered i (snd ?c)) else (False, failed i SendError (snd ?c)))"
    using assms(1) e2(1)
    by (simp add: attemptBody_def qrErrorCaught_def MAX_ATTEMPTS_def split_def Let_def
        split: encoded.splits)
  have a2: "attemptsFrom P i addr m (Suc (Suc 0)) st' = st'" for st'
    by (subst attemptsFrom.simps) (simp add: MAX_ATTEMPTS_def)
  have a1: "attemptsFrom P i addr m (Suc 0) ?s1
      = (if fst ?c then delivered i (snd ?c) else failed i SendError (snd ?c))"
    by (subst attemptsFrom.simps) (simp add: MAX_ATTEMPTS_def b2 a2)
  have a0: "attemptsFrom P i addr m 0 st = attemptsFrom P i addr m (Suc 0) ?s1"
    by (subst attemptsFrom.simps) (simp add: MAX_ATTEMPTS_def b1)
  show ?thesis
    unfolding a0 a1 using e1(2) e2(2)
    by (intro exI [of _ "fst ?c"]) simp
qed

lemma attempts_retry_succeeds:
  assumes "qrData m \<noteq> []" "fst (toBuffer P (qrData m) (world st)) = None"
      "fst (toBuffer P (qrData m) (snd (toBuffer P (qrData m) (world st)))) = Some b"
      "fst (sendMessage P addr (Media b (message m))
              (snd (toBuffer P (qrData m) (snd (toBuffer P (qrData m) (world st)))))) = True"
  shows "trace (attemptsFrom P i addr m 0 st)
           = trace st @ [Encode i (qrData m) False, Sleep 2000, Encode i (qrData m) True,
               Send i addr (Media b (message m)) True, Delivered i]"
proof -
  let ?e1 = "encodeFrom P i (qrData m) 0 st"
  let ?c = "callSend P i addr (Media b (message m)) (snd ?e1)"
  have e1: "fst ?e1 = Buffer b" "trace (snd ?e1)
      = trace st @ [Encode i (qrData m) False, Sleep 2000, Encode i (qrData m) True]"
      "world (snd ?e1)
        = snd (toBuffer P (qrData m) (snd (toBuffer P (qrData m) (world st))))"
    using encodeFrom_retry_succeeds [OF assms(1,2,3), of i] by simp_all
  have c: "fst ?c = True" using assms(4) e1(3) by (simp add: callSend_def split_def Let_def)
  have b1: "attemptBody P i addr m (Suc 0) st = (True, delivered i (snd ?c))"
    using assms(1) e1(1) c
    by (simp add: attemptBody_def split_def Let_def split: encoded.splits)
  have a0: "attemptsFrom P i addr m 0 st = delivered i (snd ?c)"
    by (subst attemptsFrom.simps) (simp add: MAX_ATTEMPTS_def b1)
  show ?thesis unfolding a0 using e1(2) c by simp
qed

lemma sendItem_encoder_fails:
  assumes "qrData m \<noteq> []" "fst (toBuffer P (qrData m) (world st)) = None"
  shows "\<exists>ok E. trace (sendItem P i addr m st)
           = trace st @ [Encode i (qrData m) False, Send i addr (Text (message m)) ok] @ E
         \<and> list_all (\<lambda>a. \<not> isEncode a) E"
proof -
  let ?g = "generateQRCode P i (qrData m) st"
  let ?c = "callSend P i addr (Text (message m)) (snd ?g)"
  have g: "fst ?g = None" "trace (snd ?g) = trace st @ [Encode i (qrData m) False]"
    using generateQRCode_None [of "qrData m" P st i] assms by simp_all
  have eq: "sendItem P i addr m st
      = (if fst ?c then delivered i (snd ?c) else sendText P i addr m (snd ?c))"
    using assms(1) g(1) by (simp add: sendItem_def split_def Let_def)
  show ?thesis
  proof (cases "fst ?c")
    case True
    with eq g show ?thesis
      by (intro exI [of _ True] exI [of _ "[Delivered i]"]) simp
  next
    case False
    with eq g show ?thesis
      by (intro exI [of _ False]
          exI [of _ "[Send i addr (Text (message m))
                        (fst (callSend P i addr (Text (message m)) (snd ?c))),
                      if fst (callSend P i addr (Text (message m)) (snd ?c))
                      then Delivered i else Failed i SendError]"])
         (simp add: sendText_def split_def Let_def)
  qed
qed

text \<open>
  C8, as the code has it. For an item with attachment data, \<^verbatim>\<open>/api/send-bulk-qr\<close> retries
  a failed encode once after 2 seconds within a delivery attempt; when the retry succeeds
  the image is sent. When the encoder keeps failing, the first attempt ends after its two
  encodes, the engine waits 3 seconds, the second attempt encodes twice more, and only then
  is the text sent alone: four encodes in all; the item is delivered if this send
  succeeds and failed if it does not. \<^verbatim>\<open>/api/send-messages\<close> encodes once and sends the
  text right after the failed encode.
\<close>

theorem encode_retries_then_text:
  "qrData m \<noteq> [] \<longrightarrow>
     ((\<forall>w. fst (toBuffer P (qrData m) w) = None) \<longrightarrow>
        (\<exists>ok. trace (attemptsFrom P i addr m 0 st)
           = trace st @ [Encode i (qrData m) False, Sleep 2000, Encode i (qrData m) False,
               Sleep 3000,
               Encode i (qrData m) False, Sleep 2000, Encode i (qrData m) False,
               Send i addr (Text (message m)) ok,
               if ok then Delivered i else Failed i SendError]))
     \<and> (fst (toBuffer P (qrData m) (world st)) = None
        \<and> fst (toBuffer P (qrData m) (snd (toBuffer P (qrData m) (world st)))) = Some b
        \<and> fst (sendMessage P addr (Media b (message m))
              (snd (toBuffer P (qrData m) (snd (toBuffer P (qrData m) (world st))))))
       \<longrightarrow> trace (attemptsFrom P i addr m 0 st)
           = trace st @ [Encode i (qrData m) False, Sleep 2000, Encode i (qrData m) True,
               Send i addr (Media b (message m)) True, Delivered i])
     \<and> (fst (toBuffer P (qrData m) (world st)) = None \<longrightarrow>
        (\<exists>ok E. trace (sendItem P i addr m st)
           = trace st @ [Encode i (qrData m) False, Send i addr (Text (message m)) ok] @ E
         \<and> list_all (\<lambda>a. \<not> isEncode a) E))"
  using attempts_encoder_down [of m P i addr st] attempts_retry_succeeds [of m P st b addr i]
    sendItem_encoder_fails [of m P st i addr]
  by simp

text \<open>
  C8 as the specification states it fails: with an encoder that is down,
  \<^verbatim>\<open>/api/send-bulk-qr\<close> encodes four times before it sends the text (three retries, not
  one), and \<^verbatim>\<open>/api/send-messages\<close> encodes once (no retry).
\<close>

theorem encode_retry_counterexample:
  "trace (endState (sendBulkQr exampleProvider [exampleItem\<lparr>qrData := ''Q''\<rparr>] 0))
     = [BatchStart 1 1 1, Encode 0 ''Q'' False, Sleep 2000, Encode 0 ''Q'' False, Sleep 3000,
        Encode 0 ''Q'' False, Sleep 2000, Encode 0 ''Q'' False,
        Send 0 ''15551234567@c.us'' (Text ''hello'') True, Delivered 0]
   \<and> length (filter isEncode
        (trace (endState (sendBulkQr exampleProvider [exampleItem\<lparr>qrData := ''Q''\<rparr>] 0)))) = 4
   \<and> trace (endState (sendMessages exampleProvider [exampleItem\<lparr>qrData := ''Q''\<rparr>] 0))
     = [Encode 0 ''Q'' False, Send 0 ''15551234567@c.us'' (Text ''hello'') True, Delivered 0]
   \<and> length (filter isEncode
        (trace (endState (sendMessages exampleProvider [exampleItem\<lparr>qrData := ''Q''\<rparr>] 0)))) = 1"
  by code_simp

theorem encode_retries_then_text_witness:
  "qrData (exampleItem\<lparr>qrData := ''Q''\<rparr>) \<noteq> []
   \<and> fst (toBuffer exampleProvider (qrData (exampleItem\<lparr>qrData := ''Q''\<rparr>)) 5) = None
   \<and> (\<exists>ok. trace (attemptsFrom exampleProvider 0 ''1@c.us'' (exampleItem\<lparr>qrData := ''Q''\<rparr>) 0
               (newJob 0))
        = [Encode 0 ''Q'' False, Sleep 2000, Encode 0 ''Q'' False, Sleep 3000,
           Encode 0 ''Q'' False, Sleep 2000, Encode 0 ''Q'' False,
           Send 0 ''1@c.us'' (Text ''hello'') ok,
           if ok then Delivered 0 else Failed 0 SendError])"
proof -
  have a: "qrData (exampleItem\<lparr>qrData := ''Q''\<rparr>) \<noteq> []" by simp
  have b: "\<forall>w. fst (toBuffer exampleProvider (qrData (exampleItem\<lparr>qrData := ''Q''\<rparr>)) w) = None"
    by (simp add: exampleProvider_def)
  from a b show ?thesis
    using encode_retries_then_text [of "exampleItem\<lparr>qrData := ''Q''\<rparr>" exampleProvider
        0 "''1@c.us''" "newJob 0" "''x''"]
    by (simp add: newJob_def exampleItem_def)
qed

end
